theory Spec2Isabelle
  imports Complex_Main
begin

section \<open>Strings and numbers of the JavaScript runtime\<close>

text \<open>
  A JavaScript string is modelled as a \<^typ>\<open>string\<close>, a list of 8-bit characters (the
  UTF-8 bytes of the text). Case conversion and white space are the ASCII ones; bytes
  above 127 are left alone. A JavaScript number is modelled exactly: counts of lines as
  \<^typ>\<open>int\<close>, percentages and scores of the coverage router as \<^typ>\<open>rat\<close>. Rounding
  of IEEE doubles, NaN and the infinities are outside the model.
\<close>

type_synonym number = rat

definition lowerChar :: "char \<Rightarrow> char" where
  "lowerChar c =
     (case map_of (zip ''ABCDEFGHIJKLMNOPQRSTUVWXYZ'' ''abcdefghijklmnopqrstuvwxyz'') c of
        Some l \<Rightarrow> l
      | None \<Rightarrow> c)"

definition toLowerCase :: "string \<Rightarrow> string" where
  "toLowerCase s = map lowerChar s"

definition startsWith :: "string \<Rightarrow> string \<Rightarrow> bool" where
  "startsWith s p = (take (length p) s = p)"

definition endsWith :: "string \<Rightarrow> string \<Rightarrow> bool" where
  "endsWith s p = (length p \<le> length s \<and> drop (length s - length p) s = p)"

text \<open>\<open>s.includes(sub)\<close>: \<open>sub\<close> occurs in \<open>s\<close> at some position.\<close>

fun str_includes :: "string \<Rightarrow> string \<Rightarrow> bool" where
  "str_includes [] sub = (sub = [])"
| "str_includes (c # cs) sub = (startsWith (c # cs) sub \<or> str_includes cs sub)"

definition isDigit :: "char \<Rightarrow> bool" where
  "isDigit c = (c \<in> set ''0123456789'')"

definition isSpace :: "char \<Rightarrow> bool" where
  "isSpace c = (c \<in> set [CHR '' '', CHR 0x09, CHR 0x0A, CHR 0x0B, CHR 0x0C, CHR 0x0D])"

definition trim :: "string \<Rightarrow> string" where
  "trim s = rev (dropWhile isSpace (rev (dropWhile isSpace s)))"

text \<open>
  \<open>s.split(sep)\<close> for a non-empty separator: the pieces between the occurrences of
  \<open>sep\<close>, found from left to right. \<open>piece\<close> is the piece being read.
\<close>

function str_split_from :: "string \<Rightarrow> string \<Rightarrow> string \<Rightarrow> string list" where
  "str_split_from sep piece [] = [piece]"
| "str_split_from sep piece (c # cs) =
     (if sep \<noteq> [] \<and> startsWith (c # cs) sep
      then piece # str_split_from sep [] (drop (length sep) (c # cs))
      else str_split_from sep (piece @ [c]) cs)"
  by pat_completeness auto
termination
  by (relation "measure (\<lambda>(sep, piece, rest). length rest)") auto

definition str_split :: "string \<Rightarrow> string \<Rightarrow> string list" where
  "str_split s sep = str_split_from sep [] s"

text \<open>\<open>xs.join(sep)\<close> of an array of strings.\<close>

fun array_join :: "string list \<Rightarrow> string \<Rightarrow> string" where
  "array_join [] sep = []"
| "array_join [x] sep = x"
| "array_join (x # y # ys) sep = x @ sep @ array_join (y # ys) sep"

text \<open>The decimal text of a number, as a template literal prints an integer.\<close>

fun show_nat :: "nat \<Rightarrow> string" where
  "show_nat n =
     (if n < 10 then [''0123456789'' ! n]
      else show_nat (n div 10) @ [''0123456789'' ! (n mod 10)])"

declare show_nat.simps [simp del]

definition show_int :: "int \<Rightarrow> string" where
  "show_int i = (if i < 0 then ''-'' @ show_nat (nat (- i)) else show_nat (nat i))"

definition newline :: string where
  "newline = [CHR 0x0A]"

definition tab :: string where
  "tab = [CHR 0x09]"

subsection \<open>Regular expressions\<close>

text \<open>
  Every regular expression that the diff classifier tests a path against is an
  alternation of literals, where a literal may be followed by the end of the input
  (\<open>$\<close>) or by a digit (\<open>\d\<close>). \<open>comments?\<close> matches where \<open>comment\<close> does.
\<close>

datatype alt = Lit string | LitEnd string | LitDigit string

type_synonym regex = "alt list"

fun includesThenDigit :: "string \<Rightarrow> string \<Rightarrow> bool" where
  "includesThenDigit [] l = False"
| "includesThenDigit (c # cs) l =
     ((startsWith (c # cs) l \<and>
        (case drop (length l) (c # cs) of [] \<Rightarrow> False | d # _ \<Rightarrow> isDigit d))
      \<or> includesThenDigit cs l)"

fun altMatches :: "alt \<Rightarrow> string \<Rightarrow> bool" where
  "altMatches (Lit l) s = str_includes s l"
| "altMatches (LitEnd l) s = endsWith s l"
| "altMatches (LitDigit l) s = includesThenDigit s l"

text \<open>\<open>/r/.test(s)\<close>, and \<open>/r/i.test(s)\<close> for a pattern written in lower case.\<close>

definition regex_test :: "regex \<Rightarrow> string \<Rightarrow> bool" where
  "regex_test r s = list_ex (\<lambda>a. altMatches a s) r"

definition regex_test_i :: "regex \<Rightarrow> string \<Rightarrow> bool" where
  "regex_test_i r s = regex_test r (toLowerCase s)"

section \<open>The Node.js runtime\<close>

text \<open>
  What the two modules take from the runtime and its libraries is a parameter of the
  model: the child process that runs git, the file system, the \<open>path\<close> module, the
  conversions from text to numbers, \<open>JSON.parse\<close> and the regular-expression engine
  behind \<open>String.prototype.match\<close>. A call that throws returns \<open>Inl\<close>.
\<close>

datatype error = Error string

text \<open>
  The value that \<open>JSON.parse\<close> gives for an Istanbul/c8 report, in the shape that
  \<open>parseIstanbulJson\<close> declares for it. A missing property is \<open>None\<close>. An object
  is the list of its entries in the order of \<open>Object.entries\<close>. The \<open>statementMap\<close>
  keeps, for a statement, the line on which it starts; the \<open>fnMap\<close> keeps the name.
  The summaries \<open>lines\<close>, \<open>statements\<close>, \<open>functions\<close> and \<open>branches\<close> carry the
  suffix \<open>_summary\<close>, the hit maps \<open>s\<close>, \<open>b\<close> and \<open>f\<close> the suffix \<open>_hits\<close>.
\<close>

record SummaryMetric =
  total :: number
  covered :: number
  pct :: number

record BranchMapEntry =
  line :: number
  type :: "string option"

record IstanbulFile =
  path :: "string option"
  s_hits :: "(string \<times> number) list option"
  b_hits :: "(string \<times> number list) list option"
  f_hits :: "(string \<times> number) list option"
  statementMap :: "(string \<times> number) list option"
  branchMap :: "(string \<times> BranchMapEntry) list option"
  fnMap :: "(string \<times> string) list option"
  lines_summary :: "SummaryMetric option"
  statements_summary :: "SummaryMetric option"
  functions_summary :: "SummaryMetric option"
  branches_summary :: "SummaryMetric option"

text \<open>
  The value of an entry of the report is an \<^typ>\<open>IstanbulFile\<close>, or the JSON value
  \<open>null\<close> (\<open>None\<close>), which the declared shape does not exclude at run time.
\<close>

type_synonym IstanbulReport = "(string \<times> IstanbulFile option) list"

text \<open>The two regular expressions of \<open>calculateComplexity\<close>, matched with the flag \<open>g\<close>.\<close>

datatype source_regex = ControlFlowKeywords | Declarations

record runtime =
  execSync :: "string \<Rightarrow> string \<Rightarrow> error + string"
  process_cwd :: string
  parseInt :: "string \<Rightarrow> int"
  Number :: "string \<Rightarrow> number"
  JSON_parse :: "string \<Rightarrow> IstanbulReport option"
  existsSync :: "string \<Rightarrow> bool"
  readFileSync :: "string \<Rightarrow> error + string"
  join :: "string list \<Rightarrow> string"
  resolve :: "string \<Rightarrow> string \<Rightarrow> string"
  basename :: "string \<Rightarrow> string"
  extname :: "string \<Rightarrow> string"
  matchCount :: "source_regex \<Rightarrow> string \<Rightarrow> nat"

section \<open>diff-classifier.ts\<close>

datatype RiskLevel = LowRisk | MediumRisk | HighRisk | Critical

datatype FileStatus = Added | Modified | Deleted | Renamed

record DiffFile =
  path :: string
  status :: FileStatus
  additions :: int
  deletions :: int
  hunks :: int
  binary :: bool
  oldPath :: "string option"

record FileRisk =
  path :: string
  risk :: RiskLevel
  score :: int
  reasons :: "string list"

record DiffClassification =
  category :: string
  subcategory :: "string option"
  confidence :: number
  reasoning :: string

definition HIGH_RISK_PATTERNS :: "(regex \<times> string) list" where
  "HIGH_RISK_PATTERNS =
    [([Lit ''auth'', Lit ''authentication'', Lit ''login'', Lit ''password'', Lit ''secret'',
       Lit ''token'', Lit ''key'', Lit ''credential''], ''Security-sensitive code''),
     ([Lit ''payment'', Lit ''billing'', Lit ''checkout'', Lit ''stripe'', Lit ''paypal'',
       Lit ''transaction''], ''Payment processing code''),
     ([Lit ''database'', Lit ''migration'', Lit ''schema'', Lit ''sql'', Lit ''query''],
      ''Database changes''),
     ([Lit ''security'', Lit ''permission'', Lit ''access'', Lit ''rbac'', Lit ''acl''],
      ''Security/permission changes''),
     ([Lit ''config'', Lit ''.env'', Lit ''environment''], ''Configuration changes''),
     ([LitDigit ''api/v'', Lit ''breaking'', Lit ''deprecat''],
      ''Potential API breaking changes''),
     ([Lit ''crypto'', Lit ''encrypt'', Lit ''decrypt'', Lit ''hash''], ''Cryptography code'')]"

definition MEDIUM_RISK_PATTERNS :: "(regex \<times> string) list" where
  "MEDIUM_RISK_PATTERNS =
    [([Lit ''core'', Lit ''base'', Lit ''foundation'', Lit ''lib/''], ''Core library changes''),
     ([Lit ''interface'', Lit ''type'', Lit ''contract''], ''Interface/contract changes''),
     ([Lit ''package.json'', Lit ''yarn.lock'', Lit ''package-lock''], ''Dependency changes''),
     ([Lit ''ci'', Lit ''cd'', Lit ''workflow'', Lit ''pipeline'', Lit ''.github''],
      ''CI/CD changes''),
     ([Lit ''docker'', Lit ''kubernetes'', Lit ''k8s'', Lit ''helm''],
      ''Infrastructure changes'')]"

definition SAFE_PATTERNS :: "(regex \<times> string) list" where
  "SAFE_PATTERNS =
    [([LitEnd ''.md'', Lit ''readme'', Lit ''docs/''], ''Documentation''),
     ([Lit ''.test.'', Lit ''.spec.'', Lit ''__tests__''], ''Test files''),
     ([LitEnd ''.snap'', Lit ''snapshot''], ''Snapshot files''),
     ([LitEnd ''.css'', LitEnd ''.scss'', LitEnd ''.less'', Lit ''.styl''], ''Style files''),
     ([Lit ''comment'', Lit ''todo'', Lit ''fixme''], ''Comment changes'')]"

subsection \<open>assessFileRisk\<close>

text \<open>The three passes over the pattern tables; the state \<open>(sc, rs)\<close> holds the
  variables \<open>score\<close> and \<open>reasons\<close> of the source.\<close>

fun highRiskLoop :: "(regex \<times> string) list \<Rightarrow> string \<Rightarrow> int \<times> string list \<Rightarrow> int \<times> string list" where
  "highRiskLoop [] p st = st"
| "highRiskLoop ((pattern, reason) # rest) p (sc, rs) =
     highRiskLoop rest p
       (if regex_test_i pattern p then (sc + 25, rs @ [reason]) else (sc, rs))"

fun mediumRiskLoop :: "(regex \<times> string) list \<Rightarrow> string \<Rightarrow> int \<times> string list \<Rightarrow> int \<times> string list" where
  "mediumRiskLoop [] p st = st"
| "mediumRiskLoop ((pattern, reason) # rest) p (sc, rs) =
     mediumRiskLoop rest p
       (if regex_test_i pattern p then (sc + 15, rs @ [reason]) else (sc, rs))"

fun safeLoop :: "(regex \<times> string) list \<Rightarrow> string \<Rightarrow> int \<times> string list \<Rightarrow> int \<times> string list" where
  "safeLoop [] p st = st"
| "safeLoop ((pattern, reason) # rest) p (sc, rs) =
     safeLoop rest p
       (if regex_test_i pattern p
        then (max 0 (sc - 20), rs @ [reason @ '' (lower risk)''])
        else (sc, rs))"

definition sizeScore :: "int \<Rightarrow> int \<times> string list" where
  "sizeScore totalChanges =
     (if totalChanges > 500 then (30, [''Large change ('' @ show_int totalChanges @ '' lines)''])
      else if totalChanges > 200
      then (20, [''Significant change ('' @ show_int totalChanges @ '' lines)''])
      else if totalChanges > 50 then (10, [])
      else (0, []))"

definition assessFileRisk :: "DiffFile \<Rightarrow> FileRisk" where
  "assessFileRisk file =
     (let totalChanges = additions file + deletions file;
          st = sizeScore totalChanges;
          st = highRiskLoop HIGH_RISK_PATTERNS (DiffFile.path file) st;
          st = mediumRiskLoop MEDIUM_RISK_PATTERNS (DiffFile.path file) st;
          st = safeLoop SAFE_PATTERNS (DiffFile.path file) st;
          st = (if status file = Deleted then (fst st + 15, snd st @ [''File deletion'']) else st);
          st = (if binary file then (fst st + 10, snd st @ [''Binary file'']) else st);
          score = min 100 (fst st);
          risk = (if score \<ge> 70 then Critical
                  else if score \<ge> 50 then HighRisk
                  else if score \<ge> 25 then MediumRisk
                  else LowRisk)
      in \<lparr>FileRisk.path = DiffFile.path file, risk = risk, score = score, reasons = snd st\<rparr>)"

subsection \<open>classifyDiff\<close>

text \<open>
  The object \<open>categories\<close> is the list of its entries, in the order in which the object
  literal declares them, which is the order of \<open>Object.entries\<close>.
\<close>

type_synonym categories = "(string \<times> nat) list"

definition initialCategories :: categories where
  "initialCategories =
     [(''feature'', 0), (''bugfix'', 0), (''refactor'', 0), (''test'', 0), (''docs'', 0),
      (''config'', 0), (''style'', 0), (''infra'', 0), (''security'', 0)]"

text \<open>\<open>categories.cat++\<close> and \<open>categories.cat\<close>.\<close>

definition increment :: "string \<Rightarrow> categories \<Rightarrow> categories" where
  "increment cat cats = map (\<lambda>(k, n). if k = cat then (k, n + 1) else (k, n)) cats"

definition counter :: "categories \<Rightarrow> string \<Rightarrow> nat" where
  "counter cats cat = (case map_of cats cat of Some n \<Rightarrow> n | None \<Rightarrow> 0)"

text \<open>The chain of tests that picks the one counter a file increments.\<close>

definition categoryOfFile :: "DiffFile \<Rightarrow> string" where
  "categoryOfFile file =
     (let p = toLowerCase (DiffFile.path file)
      in if regex_test [Lit ''.test.'', Lit ''.spec.'', Lit ''__tests__''] p then ''test''
         else if regex_test [LitEnd ''.md'', Lit ''readme'', Lit ''docs/''] p then ''docs''
         else if regex_test [LitEnd ''.css'', LitEnd ''.scss'', LitEnd ''.less'', Lit ''.styl''] p
         then ''style''
         else if regex_test [Lit ''config'', Lit ''.env'', Lit ''.yaml'', Lit ''.yml'',
                             LitEnd ''.json''] p
         then ''config''
         else if regex_test [Lit ''docker'', Lit ''kubernetes'', Lit ''k8s'', Lit ''helm'',
                             Lit ''ci'', Lit ''cd'', Lit ''workflow''] p
         then ''infra''
         else if regex_test [Lit ''auth'', Lit ''security'', Lit ''permission'', Lit ''crypto''] p
         then ''security''
         else if deletions file > additions file * 2 then ''refactor''
         else if status file = Added then ''feature''
         else ''bugfix'')"

fun countCategories :: "DiffFile list \<Rightarrow> categories \<Rightarrow> categories" where
  "countCategories [] cats = cats"
| "countCategories (file # files) cats =
     countCategories files (increment (categoryOfFile file) cats)"

text \<open>The scan for the dominant category; the state is \<open>(maxCount, category)\<close>.\<close>

fun dominantLoop :: "categories \<Rightarrow> nat \<times> string \<Rightarrow> nat \<times> string" where
  "dominantLoop [] st = st"
| "dominantLoop ((cat, n) # rest) (maxCount, cur) =
     dominantLoop rest (if n > maxCount then (n, cat) else (maxCount, cur))"

definition getSubcategory :: "string \<Rightarrow> DiffFile list \<Rightarrow> string option" where
  "getSubcategory cat files =
     (let paths = array_join (map (\<lambda>f. toLowerCase (DiffFile.path f)) files) '' ''
      in if cat = ''feature'' then
           (if regex_test [Lit ''api''] paths then Some ''api''
            else if regex_test [Lit ''ui'', Lit ''component'', Lit ''page''] paths
            then Some ''frontend''
            else if regex_test [Lit ''model'', Lit ''database''] paths then Some ''backend''
            else None)
         else if cat = ''bugfix'' then
           (if regex_test [Lit ''security'', Lit ''auth''] paths then Some ''security-fix''
            else if regex_test [Lit ''performance'', Lit ''perf''] paths
            then Some ''performance-fix''
            else None)
         else if cat = ''infra'' then
           (if regex_test [Lit ''docker''] paths then Some ''containerization''
            else if regex_test [Lit ''ci'', Lit ''cd'', Lit ''workflow''] paths then Some ''ci-cd''
            else if regex_test [Lit ''kubernetes'', Lit ''k8s''] paths then Some ''kubernetes''
            else None)
         else None)"

definition generateClassificationReasoning :: "string \<Rightarrow> DiffFile list \<Rightarrow> categories \<Rightarrow> string" where
  "generateClassificationReasoning cat files cats =
     (let parts = [show_nat (length files) @ '' file(s) changed.''];
          parts = (if counter cats ''test'' > 0
                   then parts @ [show_nat (counter cats ''test'') @ '' test file(s).'']
                   else parts);
          parts = (if counter cats ''docs'' > 0
                   then parts @ [show_nat (counter cats ''docs'') @ '' documentation file(s).'']
                   else parts);
          addedCount = length (filter (\<lambda>f. status f = Added) files);
          deletedCount = length (filter (\<lambda>f. status f = Deleted) files);
          parts = (if addedCount > 0
                   then parts @ [show_nat addedCount @ '' new file(s) added.'']
                   else parts);
          parts = (if deletedCount > 0
                   then parts @ [show_nat deletedCount @ '' file(s) deleted.'']
                   else parts);
          parts = parts @ [''Classified as '' @ cat @ '' based on change patterns.'']
      in array_join parts '' '')"

definition classifyDiff :: "DiffFile list \<Rightarrow> DiffClassification" where
  "classifyDiff files =
     (let cats = countCategories files initialCategories;
          (maxCount, cat) = dominantLoop cats (0, ''feature'');
          total = sum_list (map snd cats);
          conf = (if total > 0
                  then min (95 / 100) (of_nat maxCount / of_nat total + 2 / 10)
                  else 5 / 10)
      in \<lparr>category = cat,
          subcategory = getSubcategory cat files,
          confidence = conf,
          reasoning = generateClassificationReasoning cat files cats\<rparr>)"

subsection \<open>getGitDiffNumstat\<close>

text \<open>The \<open>forEach\<close> over the lines of \<open>git diff --name-status\<close> that fills \<open>statusMap\<close>.\<close>

definition setStatus :: "(string \<rightharpoonup> string) \<Rightarrow> string \<Rightarrow> (string \<rightharpoonup> string)" where
  "setStatus statusMap row =
     (let parts = str_split row tab
      in if length parts \<ge> 2
         then (let st = parts ! 0;
                   p = (if length parts = 3 then parts ! 2 else parts ! 1)
               in statusMap(p \<mapsto> st))
         else statusMap)"

text \<open>
  One line of \<open>git diff --numstat\<close>: the file it describes, if it has three fields.
  \<open>statusMap.get(path) || 'M'\<close> is \<open>'M'\<close> for a missing and for an empty status.
\<close>

definition numstatFile :: "runtime \<Rightarrow> (string \<rightharpoonup> string) \<Rightarrow> string \<Rightarrow> DiffFile option" where
  "numstatFile rt statusMap row =
     (let parts = str_split row tab
      in if length parts \<ge> 3
         then (let adds = (if parts ! 0 = ''-'' then 0 else parseInt rt (parts ! 0));
                   dels = (if parts ! 1 = ''-'' then 0 else parseInt rt (parts ! 1));
                   p = parts ! 2;
                   bin = (parts ! 0 = ''-'' \<and> parts ! 1 = ''-'');
                   statusCode = (case statusMap p of
                                   None \<Rightarrow> ''M''
                                 | Some c \<Rightarrow> if c = [] then ''M'' else c);
                   st = (if startsWith statusCode ''A'' then Added
                         else if startsWith statusCode ''D'' then Deleted
                         else if startsWith statusCode ''R'' then Renamed
                         else Modified)
               in Some \<lparr>DiffFile.path = p, status = st, additions = adds, deletions = dels,
                        hunks = 1, binary = bin, oldPath = None\<rparr>)
         else None)"

definition nonEmptyLines :: "string \<Rightarrow> string list" where
  "nonEmptyLines out = filter (\<lambda>l. l \<noteq> []) (str_split (trim out) newline)"

definition parseNumstat :: "runtime \<Rightarrow> string \<Rightarrow> string \<Rightarrow> DiffFile list" where
  "parseNumstat rt numstat nameStatus =
     (let numstatLines = nonEmptyLines numstat;
          statusMap = foldl setStatus Map.empty (nonEmptyLines nameStatus)
      in List.map_filter (numstatFile rt statusMap) numstatLines)"

text \<open>
  \<open>cwd || process.cwd()\<close>: the working directory, when it is given and not empty.
\<close>

definition cwdOrDefault :: "runtime \<Rightarrow> string option \<Rightarrow> string" where
  "cwdOrDefault rt cwd =
     (case cwd of None \<Rightarrow> process_cwd rt | Some d \<Rightarrow> if d = [] then process_cwd rt else d)"

definition numstatError :: "error \<Rightarrow> error" where
  "numstatError e = (case e of Error msg \<Rightarrow> Error (''Failed to get git diff numstat: '' @ msg))"

definition getGitDiffNumstat :: "runtime \<Rightarrow> string \<Rightarrow> string option \<Rightarrow> error + DiffFile list" where
  "getGitDiffNumstat rt ref cwd =
     (case execSync rt (''git diff --numstat '' @ ref) (cwdOrDefault rt cwd) of
        Inl e \<Rightarrow> Inl (numstatError e)
      | Inr numstat \<Rightarrow>
          (case execSync rt (''git diff --name-status '' @ ref) (cwdOrDefault rt cwd) of
             Inl e \<Rightarrow> Inl (numstatError e)
           | Inr nameStatus \<Rightarrow> Inr (parseNumstat rt numstat nameStatus)))"

section \<open>coverage-router.ts\<close>

record UncoveredBranch =
  line :: number
  column :: "number option"
  type :: string

text \<open>
  An entry of \<open>uncoveredFunctions\<close> is \<open>None\<close> where \<open>parseLcov\<close> pushes the
  undefined name of an \<open>FNDA\<close> line that has no comma.
\<close>

record CoverageData =
  filePath :: string
  lineCoverage :: number
  branchCoverage :: number
  functionCoverage :: number
  statementCoverage :: number
  uncoveredLines :: "number list"
  uncoveredBranches :: "UncoveredBranch list"
  uncoveredFunctions :: "string option list"
  totalLines :: number
  coveredLines :: number

record CoverageSummary =
  totalFiles :: nat
  overallLineCoverage :: number
  overallBranchCoverage :: number
  overallFunctionCoverage :: number
  overallStatementCoverage :: number
  filesBelowThreshold :: nat
  coverageThreshold :: number

datatype GapType = GapCritical | GapHigh | GapMedium | GapLow

record CoverageGap =
  filePath :: string
  coveragePercent :: number
  gapType :: GapType
  complexity :: nat
  priority :: number
  suggestedAgents :: "string list"
  uncoveredLines :: "number list"
  reason :: string

record Routing =
  primaryAgent :: string
  confidence :: number
  reason :: string
  coverageImpact :: string

record Metrics =
  filesAnalyzed :: nat
  totalGaps :: nat
  criticalGaps :: nat
  avgCoverage :: number

record CoverageRouteResult =
  success :: bool
  task :: string
  coverageAware :: bool
  gaps :: "CoverageGap list"
  routing :: Routing
  suggestions :: "string list"
  metrics :: Metrics

text \<open>
  The result of \<open>loadCoverageData\<close>. The tags of a report's type and of the format are
  the strings of the source.
\<close>

record LoadedCoverage =
  data :: "CoverageData list"
  format :: string
  reportPath :: "string option"

record RouteOptions =
  projectRoot :: "string option"
  threshold :: "number option"
  useRuvector :: "bool option"

definition emptyCoverageData :: "string \<Rightarrow> CoverageData" where
  "emptyCoverageData p =
     \<lparr>CoverageData.filePath = p, lineCoverage = 0, branchCoverage = 0, functionCoverage = 0,
      statementCoverage = 0, uncoveredLines = [], uncoveredBranches = [],
      uncoveredFunctions = [], totalLines = 0, coveredLines = 0\<rparr>"

subsection \<open>findCoverageReports\<close>

definition lcovPaths :: "runtime \<Rightarrow> string \<Rightarrow> string list" where
  "lcovPaths rt rootDir =
     [join rt [rootDir, ''coverage'', ''lcov.info''],
      join rt [rootDir, ''lcov.info''],
      join rt [rootDir, ''coverage'', ''lcov-report'', ''lcov.info'']]"

definition summaryPaths :: "runtime \<Rightarrow> string \<Rightarrow> string list" where
  "summaryPaths rt rootDir =
     (let coverageDir = join rt [rootDir, ''coverage'']
      in [join rt [coverageDir, ''coverage-summary.json''],
          join rt [coverageDir, ''coverage-final.json''],
          join rt [rootDir, ''.nyc_output'', ''coverage-summary.json'']])"

text \<open>A report is the pair of its type and its path.\<close>

definition findCoverageReports :: "runtime \<Rightarrow> string \<Rightarrow> (string \<times> string) list" where
  "findCoverageReports rt rootDir =
     map (\<lambda>lcovPath. (''lcov'', lcovPath)) (filter (existsSync rt) (lcovPaths rt rootDir)) @
     map (\<lambda>summaryPath.
            (if str_includes summaryPath ''.nyc_output'' then ''istanbul'' else ''c8'',
             summaryPath))
         (filter (existsSync rt) (summaryPaths rt rootDir))"

subsection \<open>parseLcov\<close>

text \<open>The variables of the loop over the lines of one record.\<close>

record LcovState =
  rec :: CoverageData
  linesFound :: nat
  linesHit :: nat
  branchesFound :: nat
  branchesHit :: nat
  functionsFound :: nat
  functionsHit :: nat

text \<open>
  The percentage of a metric: \<open>found > 0 ? (hit / found) * 100 : 100\<close>.
\<close>

definition percentage :: "nat \<Rightarrow> nat \<Rightarrow> number" where
  "percentage hit found = (if found > 0 then (of_nat hit / of_nat found) * 100 else 100)"

text \<open>
  \<open>DA:line,hits\<close>. The array that \<open>split\<close> returns has at least one element; where
  it has one only, \<open>hitCount\<close> is undefined and \<open>hitCount > 0\<close> is false.
\<close>

definition lcovDA :: "runtime \<Rightarrow> LcovState \<Rightarrow> string \<Rightarrow> LcovState" where
  "lcovDA rt st l =
     (if startsWith l ''DA:''
      then (case map (Number rt) (str_split (drop 3 l) '','') of
              [] \<Rightarrow> st
            | lineNum # others \<Rightarrow>
                if (case others of [] \<Rightarrow> False | hitCount # _ \<Rightarrow> hitCount > 0)
                then st\<lparr>linesFound := linesFound st + 1, linesHit := linesHit st + 1\<rparr>
                else st\<lparr>linesFound := linesFound st + 1,
                        rec := (rec st)\<lparr>CoverageData.uncoveredLines :=
                                 CoverageData.uncoveredLines (rec st) @ [lineNum]\<rparr>\<rparr>)
      else st)"

text \<open>
  \<open>BRDA:line,block,branch,hits\<close>. With fewer than four fields \<open>parts[3]\<close> is
  undefined and the hit count is not greater than 0.
\<close>

definition lcovBRDA :: "runtime \<Rightarrow> LcovState \<Rightarrow> string \<Rightarrow> LcovState" where
  "lcovBRDA rt st l =
     (if startsWith l ''BRDA:''
      then (let parts = str_split (drop 5 l) '','';
                lineNum = of_int (parseInt rt (parts ! 0));
                hit = (length parts > 3 \<and>
                       (if parts ! 3 = ''-'' then False else parseInt rt (parts ! 3) > 0))
            in if hit
               then st\<lparr>branchesFound := branchesFound st + 1,
                       branchesHit := branchesHit st + 1\<rparr>
               else st\<lparr>branchesFound := branchesFound st + 1,
                       rec := (rec st)\<lparr>uncoveredBranches := uncoveredBranches (rec st) @
                                [\<lparr>line = lineNum, column = None, type = ''unknown''\<rparr>]\<rparr>\<rparr>)
      else st)"

text \<open>\<open>FNDA:hits,name\<close>.\<close>

definition lcovFNDA :: "runtime \<Rightarrow> LcovState \<Rightarrow> string \<Rightarrow> LcovState" where
  "lcovFNDA rt st l =
     (if startsWith l ''FNDA:''
      then (case str_split (drop 5 l) '','' of
              [] \<Rightarrow> st
            | hitCount # others \<Rightarrow>
                if parseInt rt hitCount > 0
                then st\<lparr>functionsFound := functionsFound st + 1,
                        functionsHit := functionsHit st + 1\<rparr>
                else st\<lparr>functionsFound := functionsFound st + 1,
                        rec := (rec st)\<lparr>uncoveredFunctions := uncoveredFunctions (rec st) @
                                 [case others of [] \<Rightarrow> None | funcName # _ \<Rightarrow> Some funcName]\<rparr>\<rparr>)
      else st)"

definition lcovSummary :: "runtime \<Rightarrow> LcovState \<Rightarrow> string \<Rightarrow> LcovState" where
  "lcovSummary rt st l =
     (let st = (if startsWith l ''LF:''
                then st\<lparr>rec := (rec st)\<lparr>totalLines := of_int (parseInt rt (drop 3 l))\<rparr>\<rparr>
                else st)
      in if startsWith l ''LH:''
         then st\<lparr>rec := (rec st)\<lparr>coveredLines := of_int (parseInt rt (drop 3 l))\<rparr>\<rparr>
         else st)"

text \<open>One pass of the loop over the lines of a record: its four tests in turn.\<close>

definition lcovLine :: "runtime \<Rightarrow> LcovState \<Rightarrow> string \<Rightarrow> LcovState" where
  "lcovLine rt st l = lcovSummary rt (lcovFNDA rt (lcovBRDA rt (lcovDA rt st l) l) l) l"

definition lcovLines :: "string \<Rightarrow> string list" where
  "lcovLines record = filter (\<lambda>l. l \<noteq> []) (map trim (str_split record newline))"

text \<open>
  The body of the loop over the records: \<open>None\<close> where the source goes on to the next
  record without pushing a file.
\<close>

definition parseLcovRecord :: "runtime \<Rightarrow> string \<Rightarrow> CoverageData option" where
  "parseLcovRecord rt record =
     (if trim record = [] then None
      else (case List.find (\<lambda>l. startsWith l ''SF:'') (lcovLines record) of
              None \<Rightarrow> None
            | Some sfLine \<Rightarrow>
                (let st = foldl (lcovLine rt)
                            \<lparr>rec = emptyCoverageData (drop 3 sfLine), linesFound = 0,
                             linesHit = 0, branchesFound = 0, branchesHit = 0,
                             functionsFound = 0, functionsHit = 0\<rparr>
                            (lcovLines record);
                     lineCov = percentage (linesHit st) (linesFound st)
                 in Some ((rec st)\<lparr>lineCoverage := lineCov,
                            branchCoverage := percentage (branchesHit st) (branchesFound st),
                            functionCoverage := percentage (functionsHit st) (functionsFound st),
                            statementCoverage := lineCov\<rparr>))))"

definition parseLcov :: "runtime \<Rightarrow> string \<Rightarrow> CoverageData list" where
  "parseLcov rt lcovContent =
     List.map_filter (parseLcovRecord rt) (str_split lcovContent ''end_of_record'')"

subsection \<open>parseIstanbulJson\<close>

text \<open>
  The passes over the hit maps of the detailed shape. The state holds the counters
  \<open>Total\<close> and \<open>Covered\<close> and the list that the loop pushes to. A test such as
  \<open>if (stmtInfo?.start?.line)\<close> holds for a number other than 0 and for a string
  other than the empty one.
\<close>

fun statementLoop :: "(string \<times> number) list \<Rightarrow> (string \<times> number) list \<Rightarrow> nat \<times> nat \<times> number list \<Rightarrow> nat \<times> nat \<times> number list" where
  "statementLoop [] stmtMap st = st"
| "statementLoop ((stmtId, hitCount) # rest) stmtMap (statementsTotal, statementsCovered, uncovered) =
     statementLoop rest stmtMap
       (if hitCount > 0 then (statementsTotal + 1, statementsCovered + 1, uncovered)
        else (statementsTotal + 1, statementsCovered,
              (case map_of stmtMap stmtId of
                 None \<Rightarrow> uncovered
               | Some startLine \<Rightarrow> if startLine \<noteq> 0 then uncovered @ [startLine] else uncovered)))"

fun hitsLoop :: "number list \<Rightarrow> BranchMapEntry option \<Rightarrow> nat \<times> nat \<times> UncoveredBranch list \<Rightarrow> nat \<times> nat \<times> UncoveredBranch list" where
  "hitsLoop [] branchInfo st = st"
| "hitsLoop (hitCount # rest) branchInfo (branchesTotal, branchesCovered, uncovered) =
     hitsLoop rest branchInfo
       (if hitCount > 0 then (branchesTotal + 1, branchesCovered + 1, uncovered)
        else (branchesTotal + 1, branchesCovered,
              (case branchInfo of
                 None \<Rightarrow> uncovered
               | Some info \<Rightarrow>
                   uncovered @
                   [\<lparr>line = BranchMapEntry.line info, column = None,
                     type = (case BranchMapEntry.type info of
                               None \<Rightarrow> ''unknown''
                             | Some t \<Rightarrow> if t = [] then ''unknown'' else t)\<rparr>])))"

fun branchLoop :: "(string \<times> number list) list \<Rightarrow> (string \<times> BranchMapEntry) list \<Rightarrow> nat \<times> nat \<times> UncoveredBranch list \<Rightarrow> nat \<times> nat \<times> UncoveredBranch list" where
  "branchLoop [] brMap st = st"
| "branchLoop ((branchId, hits) # rest) brMap st =
     branchLoop rest brMap (hitsLoop hits (map_of brMap branchId) st)"

fun functionLoop :: "(string \<times> number) list \<Rightarrow> (string \<times> string) list \<Rightarrow> nat \<times> nat \<times> string option list \<Rightarrow> nat \<times> nat \<times> string option list" where
  "functionLoop [] fMap st = st"
| "functionLoop ((fnId, hitCount) # rest) fMap (functionsTotal, functionsCovered, uncovered) =
     functionLoop rest fMap
       (if hitCount > 0 then (functionsTotal + 1, functionsCovered + 1, uncovered)
        else (functionsTotal + 1, functionsCovered,
              (case map_of fMap fnId of
                 None \<Rightarrow> uncovered
               | Some name \<Rightarrow> if name \<noteq> [] then uncovered @ [Some name] else uncovered)))"

text \<open>
  The summary shape: the percentages are the ones of the report. The test
  \<open>fileData.lines && typeof fileData.lines.pct === 'number'\<close> holds where the entry
  has \<open>lines\<close>, whose \<open>pct\<close> is a number in the declared shape.
\<close>

definition summaryEntry :: "CoverageData \<Rightarrow> IstanbulFile \<Rightarrow> SummaryMetric \<Rightarrow> CoverageData" where
  "summaryEntry d fileData ls =
     d\<lparr>lineCoverage := pct ls,
       statementCoverage := (case statements_summary fileData of
                               None \<Rightarrow> pct ls
                             | Some m \<Rightarrow> pct m),
       branchCoverage := (case branches_summary fileData of None \<Rightarrow> 100 | Some m \<Rightarrow> pct m),
       functionCoverage := (case functions_summary fileData of None \<Rightarrow> 100 | Some m \<Rightarrow> pct m),
       totalLines := total ls,
       coveredLines := covered ls\<rparr>"

text \<open>The three parts of the detailed shape, each under its own test.\<close>

definition detailedStatements :: "CoverageData \<Rightarrow> IstanbulFile \<Rightarrow> CoverageData" where
  "detailedStatements d fileData =
     (case (s_hits fileData, statementMap fileData) of
        (Some hitMap, Some stmtMap) \<Rightarrow>
          (case statementLoop hitMap stmtMap (0, 0, CoverageData.uncoveredLines d) of
             (statementsTotal, statementsCovered, uncovered) \<Rightarrow>
               d\<lparr>CoverageData.uncoveredLines := uncovered,
                 statementCoverage := percentage statementsCovered statementsTotal,
                 lineCoverage := percentage statementsCovered statementsTotal,
                 totalLines := of_nat statementsTotal,
                 coveredLines := of_nat statementsCovered\<rparr>)
      | _ \<Rightarrow> d)"

definition detailedBranches :: "CoverageData \<Rightarrow> IstanbulFile \<Rightarrow> CoverageData" where
  "detailedBranches d fileData =
     (case (b_hits fileData, branchMap fileData) of
        (Some hitMap, Some brMap) \<Rightarrow>
          (case branchLoop hitMap brMap (0, 0, uncoveredBranches d) of
             (branchesTotal, branchesCovered, uncovered) \<Rightarrow>
               d\<lparr>uncoveredBranches := uncovered,
                 branchCoverage := percentage branchesCovered branchesTotal\<rparr>)
      | _ \<Rightarrow> d)"

definition detailedFunctions :: "CoverageData \<Rightarrow> IstanbulFile \<Rightarrow> CoverageData" where
  "detailedFunctions d fileData =
     (case (f_hits fileData, fnMap fileData) of
        (Some hitMap, Some fMap) \<Rightarrow>
          (case functionLoop hitMap fMap (0, 0, uncoveredFunctions d) of
             (functionsTotal, functionsCovered, uncovered) \<Rightarrow>
               d\<lparr>uncoveredFunctions := uncovered,
                 functionCoverage := percentage functionsCovered functionsTotal\<rparr>)
      | _ \<Rightarrow> d)"

text \<open>
  The body of the loop over the entries for an entry that is an object.
  \<open>fileData.path || filePath\<close> is \<open>filePath\<close> for a missing and for an empty path;
  \<open>Array.from(new Set(xs)).sort((a, b) => a - b)\<close> is the sorted list without
  duplicates.
\<close>

definition istanbulEntry :: "string \<Rightarrow> IstanbulFile \<Rightarrow> CoverageData" where
  "istanbulEntry entryPath fileData =
     (let d = emptyCoverageData
                (case IstanbulFile.path fileData of
                   None \<Rightarrow> entryPath
                 | Some p \<Rightarrow> if p = [] then entryPath else p)
      in case lines_summary fileData of
           Some ls \<Rightarrow> summaryEntry d fileData ls
         | None \<Rightarrow>
             (let d = detailedStatements d fileData;
                  d = detailedBranches d fileData;
                  d = detailedFunctions d fileData
              in d\<lparr>CoverageData.uncoveredLines :=
                     sort (remdups (CoverageData.uncoveredLines d))\<rparr>))"

text \<open>
  The loop over the entries, inside \<open>try\<close>. \<open>files\<close> is the array declared before
  the \<open>try\<close>; the loop pushes to it. For an entry that is \<open>null\<close> the read of
  \<open>fileData.path\<close> throws a TypeError, which ends the loop: the result is the array as
  it is then, with the error.
\<close>

fun istanbulLoop :: "IstanbulReport \<Rightarrow> CoverageData list \<Rightarrow> CoverageData list \<times> error option" where
  "istanbulLoop [] files = (files, None)"
| "istanbulLoop ((entryPath, fileData) # rest) files =
     (if entryPath = ''total'' then istanbulLoop rest files
      else (case fileData of
              None \<Rightarrow> (files, Some (Error ''TypeError: Cannot read properties of null''))
            | Some fd \<Rightarrow> istanbulLoop rest (files @ [istanbulEntry entryPath fd])))"

text \<open>
  \<open>catch\<close> drops the error, of \<open>JSON.parse\<close> or of the loop, and the function
  returns \<open>files\<close>.
\<close>

definition parseIstanbulJson :: "runtime \<Rightarrow> string \<Rightarrow> CoverageData list" where
  "parseIstanbulJson rt jsonContent =
     (case JSON_parse rt jsonContent of
        None \<Rightarrow> []
      | Some coverage \<Rightarrow> fst (istanbulLoop coverage []))"

subsection \<open>loadCoverageData\<close>

definition noCoverage :: LoadedCoverage where
  "noCoverage = \<lparr>data = [], format = ''none'', reportPath = None\<rparr>"

definition loadCoverageData :: "runtime \<Rightarrow> string \<Rightarrow> error + LoadedCoverage" where
  "loadCoverageData rt rootDir =
     (let reports = findCoverageReports rt rootDir
      in if length reports = 0 then Inr noCoverage
         else (case List.find (\<lambda>r. fst r = ''lcov'') reports of
                 Some lcovReport \<Rightarrow>
                   (case readFileSync rt (snd lcovReport) of
                      Inl e \<Rightarrow> Inl e
                    | Inr content \<Rightarrow>
                        Inr \<lparr>data = parseLcov rt content, format = ''lcov'',
                             reportPath = Some (snd lcovReport)\<rparr>)
               | None \<Rightarrow>
                   (case List.find (\<lambda>r. fst r = ''istanbul'' \<or> fst r = ''c8'') reports of
                      Some jsonReport \<Rightarrow>
                        (case readFileSync rt (snd jsonReport) of
                           Inl e \<Rightarrow> Inl e
                         | Inr content \<Rightarrow>
                             Inr \<lparr>data = parseIstanbulJson rt content,
                                  format = fst jsonReport,
                                  reportPath = Some (snd jsonReport)\<rparr>)
                    | None \<Rightarrow> Inr noCoverage)))"

subsection \<open>Coverage analysis\<close>

text \<open>
  \<open>content.match(re)\<close> is \<open>null\<close> where nothing matches, and then nothing is added;
  \<open>matchCount\<close> is 0 there, which adds 0.
\<close>

definition calculateComplexity :: "runtime \<Rightarrow> string \<Rightarrow> string \<Rightarrow> nat" where
  "calculateComplexity rt file rootDir =
     (let fullPath = resolve rt rootDir file
      in if \<not> existsSync rt fullPath then 1
         else (case readFileSync rt fullPath of
                 Inl e \<Rightarrow> 1
               | Inr content \<Rightarrow>
                   (let lineCount = length (str_split content newline);
                        c = 1;
                        c = (if lineCount > 500 then c + 3
                             else if lineCount > 200 then c + 2
                             else if lineCount > 100 then c + 1
                             else c);
                        c = c + min 5 (matchCount rt ControlFlowKeywords content div 10);
                        c = c + min 3 (matchCount rt Declarations content div 5)
                    in min 10 c)))"

definition determineGapType :: "number \<Rightarrow> GapType" where
  "determineGapType coverage =
     (if coverage < 20 then GapCritical
      else if coverage < 50 then GapHigh
      else if coverage < 70 then GapMedium
      else GapLow)"

definition extAgentMap :: "(string \<times> string list) list" where
  "extAgentMap =
     [(''.ts'', [''coder'', ''tester'', ''reviewer'']),
      (''.tsx'', [''coder'', ''tester'', ''reviewer'']),
      (''.js'', [''coder'', ''tester'']),
      (''.jsx'', [''coder'', ''tester'']),
      (''.py'', [''coder'', ''tester'', ''ml-developer'']),
      (''.go'', [''coder'', ''tester'']),
      (''.rs'', [''coder'', ''tester'', ''performance-engineer''])]"

text \<open>\<open>Array.from(new Set(xs))\<close>: the elements of \<open>xs\<close>, each at its first occurrence.\<close>

definition setToArray :: "'a list \<Rightarrow> 'a list" where
  "setToArray xs = rev (remdups (rev xs))"

definition suggestAgentsForFile :: "runtime \<Rightarrow> string \<Rightarrow> CoverageData \<Rightarrow> GapType \<Rightarrow> string list" where
  "suggestAgentsForFile rt file coverageData gap =
     (let ext = toLowerCase (extname rt file);
          fileName = toLowerCase (basename rt file)
      in if str_includes fileName ''.test.'' \<or> str_includes fileName ''.spec.''
         then [''tester'', ''reviewer'']
         else
           (let agents =
                  (if str_includes file ''/api/'' \<or> str_includes file ''/routes/''
                   then [''coder'', ''tester'', ''security-architect'']
                   else if str_includes file ''/auth/'' \<or> str_includes file ''security''
                   then [''security-architect'', ''tester'', ''coder'']
                   else if str_includes file ''/utils/'' \<or> str_includes file ''/helpers/''
                   then [''coder'', ''tester'']
                   else if str_includes file ''/services/''
                   then [''coder'', ''tester'', ''architect'']
                   else (case map_of extAgentMap ext of
                           None \<Rightarrow> [''coder'', ''tester'']
                         | Some as \<Rightarrow> as));
                agents = (if gap = GapCritical \<and> ''reviewer'' \<notin> set agents
                          then agents @ [''reviewer'']
                          else agents);
                agents = (if length (uncoveredBranches coverageData) > 5
                          then (if ''architect'' \<notin> set agents
                                then agents @ [''architect'']
                                else agents)
                          else agents)
            in take 4 (setToArray agents)))"

definition gapPriority :: "GapType \<Rightarrow> number" where
  "gapPriority gap =
     (case gap of GapCritical \<Rightarrow> 100 | GapHigh \<Rightarrow> 75 | GapMedium \<Rightarrow> 50 | GapLow \<Rightarrow> 25)"

definition calculatePriority :: "runtime \<Rightarrow> CoverageData \<Rightarrow> nat \<Rightarrow> GapType \<Rightarrow> number" where
  "calculatePriority rt coverageData cplx gap =
     (let p = gapPriority gap;
          p = p + of_nat cplx * 3;
          uncoveredRatio = of_nat (length (CoverageData.uncoveredLines coverageData))
                             / max 1 (totalLines coverageData);
          p = p + min 20 (uncoveredRatio * 50);
          p = (if branchCoverage coverageData < 50 then p + 15
               else if branchCoverage coverageData < 75 then p + 8
               else p);
          fileName = basename rt (CoverageData.filePath coverageData);
          p = (if str_includes fileName ''service'' \<or> str_includes fileName ''controller''
               then p + 10 else p);
          p = (if str_includes fileName ''auth'' \<or> str_includes fileName ''security''
               then p + 15 else p)
      in min 200 p)"

text \<open>
  \<open>x.toFixed(1)\<close>: the sign, and the magnitude rounded to the nearest tenth, the
  larger one where two are as near.
\<close>

definition toFixed1 :: "number \<Rightarrow> string" where
  "toFixed1 x =
     (let n = nat \<lfloor>\<bar>x\<bar> * 10 + 1 / 2\<rfloor>
      in (if x < 0 then ''-'' else '''') @ show_nat (n div 10) @ ''.'' @ show_nat (n mod 10))"

text \<open>
  \<open>xs.sort(cmp)\<close>. The sort of an array is stable, so for a comparator that orders
  the elements by a key it is the insertion of each element before the first one that
  does not come before it.
\<close>

fun insertSorted :: "('a \<Rightarrow> 'a \<Rightarrow> number) \<Rightarrow> 'a \<Rightarrow> 'a list \<Rightarrow> 'a list" where
  "insertSorted cmp x [] = [x]"
| "insertSorted cmp x (y # ys) =
     (if cmp x y \<le> 0 then x # y # ys else y # insertSorted cmp x ys)"

definition array_sort :: "('a \<Rightarrow> 'a \<Rightarrow> number) \<Rightarrow> 'a list \<Rightarrow> 'a list" where
  "array_sort cmp xs = foldr (insertSorted cmp) xs []"

definition avgCoverageOf :: "CoverageData \<Rightarrow> number" where
  "avgCoverageOf d =
     (lineCoverage d + branchCoverage d + functionCoverage d + statementCoverage d) / 4"

text \<open>
  The body of the loop of \<open>analyzeCoverageGaps\<close>: \<open>None\<close> where the source goes on
  to the next file without pushing a gap.
\<close>

definition gapOfFile :: "runtime \<Rightarrow> string \<Rightarrow> number \<Rightarrow> CoverageData \<Rightarrow> CoverageGap option" where
  "gapOfFile rt rootDir thr d =
     (let avg = avgCoverageOf d
      in if avg \<ge> thr then None
         else
           (let gap = determineGapType avg;
                cplx = calculateComplexity rt (CoverageData.filePath d) rootDir;
                agents = suggestAgentsForFile rt (CoverageData.filePath d) d gap;
                prio = calculatePriority rt d cplx gap;
                rs = (if lineCoverage d < thr
                      then [''line coverage '' @ toFixed1 (lineCoverage d) @ ''%'']
                      else []);
                rs = (if branchCoverage d < thr
                      then rs @ [''branch coverage '' @ toFixed1 (branchCoverage d) @ ''%'']
                      else rs);
                rs = (if length (uncoveredFunctions d) > 0
                      then rs @ [show_nat (length (uncoveredFunctions d))
                                 @ '' uncovered functions'']
                      else rs)
            in Some \<lparr>CoverageGap.filePath = CoverageData.filePath d,
                      coveragePercent = avg,
                      gapType = gap,
                      complexity = cplx,
                      priority = prio,
                      suggestedAgents = agents,
                      uncoveredLines = take 20 (CoverageData.uncoveredLines d),
                      reason = (if array_join rs '', '' = [] then ''Below threshold''
                                else array_join rs '', '')\<rparr>))"

definition analyzeCoverageGaps :: "runtime \<Rightarrow> CoverageData list \<Rightarrow> string \<Rightarrow> number \<Rightarrow> CoverageGap list" where
  "analyzeCoverageGaps rt coverageData rootDir thr =
     array_sort (\<lambda>a b. priority b - priority a)
       (List.map_filter (gapOfFile rt rootDir thr) coverageData)"

definition generateCoverageSummary :: "CoverageData list \<Rightarrow> number \<Rightarrow> CoverageSummary" where
  "generateCoverageSummary coverageData thr =
     (if length coverageData = 0
      then \<lparr>totalFiles = 0, overallLineCoverage = 0, overallBranchCoverage = 0,
            overallFunctionCoverage = 0, overallStatementCoverage = 0,
            filesBelowThreshold = 0, coverageThreshold = thr\<rparr>
      else
        (let fileCount = length coverageData;
             belowThreshold = length (filter (\<lambda>d. avgCoverageOf d < thr) coverageData)
         in \<lparr>totalFiles = fileCount,
              overallLineCoverage = sum_list (map lineCoverage coverageData) / of_nat fileCount,
              overallBranchCoverage =
                sum_list (map branchCoverage coverageData) / of_nat fileCount,
              overallFunctionCoverage =
                sum_list (map functionCoverage coverageData) / of_nat fileCount,
              overallStatementCoverage =
                sum_list (map statementCoverage coverageData) / of_nat fileCount,
              filesBelowThreshold = belowThreshold,
              coverageThreshold = thr\<rparr>))"

subsection \<open>coverageRoute\<close>

text \<open>
  The choice of the primary agent from the task and the gaps.
  \<open>criticalGaps[0].suggestedAgents[0] || 'tester'\<close> is \<open>'tester'\<close> for a missing
  and for an empty first agent.
\<close>

definition defaultRouting :: Routing where
  "defaultRouting =
     \<lparr>primaryAgent = ''coder'', confidence = 75 / 100,
      reason = ''Default routing based on task analysis'',
      coverageImpact = ''No coverage data available''\<rparr>"

definition determineRouting :: "string \<Rightarrow> CoverageGap list \<Rightarrow> Routing" where
  "determineRouting taskText gapList =
     (let taskLower = toLowerCase taskText;
          r = defaultRouting
      in if length gapList > 0
         then
           (let criticals = filter (\<lambda>g. gapType g = GapCritical \<or> gapType g = GapHigh) gapList;
                r = (case criticals of
                       [] \<Rightarrow> r
                     | g # _ \<Rightarrow>
                         r\<lparr>primaryAgent :=
                              (case suggestedAgents g of
                                 [] \<Rightarrow> ''tester''
                               | a # _ \<Rightarrow> if a = [] then ''tester'' else a),
                           confidence := 85 / 100,
                           reason := ''Critical coverage gap in '' @ CoverageGap.filePath g,
                           coverageImpact := show_nat (length criticals)
                                             @ '' high-priority files need attention''\<rparr>)
            in if str_includes taskLower ''test'' \<or> str_includes taskLower ''coverage''
               then r\<lparr>primaryAgent := ''tester'', confidence := 9 / 10,
                      reason := ''Task explicitly mentions testing/coverage''\<rparr>
               else if str_includes taskLower ''security'' \<or> str_includes taskLower ''auth''
               then r\<lparr>primaryAgent := ''security-architect'', confidence := 88 / 100,
                      reason := ''Security-related task detected''\<rparr>
               else r)
         else r)"

definition routeSuggestions :: "runtime \<Rightarrow> string \<Rightarrow> CoverageGap list \<Rightarrow> string list" where
  "routeSuggestions rt fmt gapList =
     (if fmt = ''none''
      then [''Run tests with coverage to enable coverage-aware routing'',
            ''Supported formats: lcov, istanbul (c8), nyc'']
      else if length gapList = 0 then [''All files meet coverage threshold'']
      else [''Focus on '' @
              array_join (map (\<lambda>g. basename rt (CoverageGap.filePath g)) (take 3 gapList)) '', '']
           @ (if list_ex (\<lambda>g. gapType g = GapCritical) gapList
              then [''Critical coverage gaps detected - prioritize testing'']
              else []))"

text \<open>
  The gaps that \<open>coverageRoute\<close> analyses: none where no coverage data was loaded.
\<close>

definition routeGaps :: "runtime \<Rightarrow> CoverageData list \<Rightarrow> string \<Rightarrow> number \<Rightarrow> CoverageGap list" where
  "routeGaps rt coverageData rootDir thr =
     (if length coverageData > 0 then analyzeCoverageGaps rt coverageData rootDir thr else [])"

text \<open>
  \<open>coverageRoute\<close>. The promise it returns is fulfilled (\<open>Inr\<close>) or rejected
  (\<open>Inl\<close>), the latter where a report that exists cannot be read. The call of the
  optional \<open>ruvector\<close> module is left out: its errors are caught, and its result is
  not used.
\<close>

text \<open>
  \<open>options.projectRoot || process.cwd()\<close> and \<open>options.threshold ?? 80\<close>.
\<close>

definition optionsRoot :: "runtime \<Rightarrow> RouteOptions \<Rightarrow> string" where
  "optionsRoot rt options =
     (case projectRoot options of
        None \<Rightarrow> process_cwd rt
      | Some r \<Rightarrow> if r = [] then process_cwd rt else r)"

definition optionsThreshold :: "RouteOptions \<Rightarrow> number" where
  "optionsThreshold options = (case threshold options of None \<Rightarrow> 80 | Some t \<Rightarrow> t)"

definition coverageRoute :: "runtime \<Rightarrow> string \<Rightarrow> RouteOptions \<Rightarrow> error + CoverageRouteResult" where
  "coverageRoute rt taskText options =
     (let rootDir = optionsRoot rt options;
          thr = optionsThreshold options
      in case loadCoverageData rt rootDir of
           Inl e \<Rightarrow> Inl e
         | Inr loaded \<Rightarrow>
             (let coverageData = data loaded;
                  gapList = routeGaps rt coverageData rootDir thr;
                  summary = generateCoverageSummary coverageData thr
              in Inr \<lparr>success = True,
                      task = taskText,
                      coverageAware = (format loaded \<noteq> ''none''),
                      gaps = take 10 gapList,
                      routing = determineRouting taskText gapList,
                      suggestions = routeSuggestions rt (format loaded) gapList,
                      metrics =
                        \<lparr>filesAnalyzed = length coverageData,
                         totalGaps = length gapList,
                         criticalGaps = length (filter (\<lambda>g. gapType g = GapCritical) gapList),
                         avgCoverage = overallLineCoverage summary\<rparr>\<rparr>))"

section \<open>Notions of the specification and example inputs\<close>

text \<open>The risk labels in increasing order, and the categories in their enumeration order.\<close>

definition riskRank :: "RiskLevel \<Rightarrow> nat" where
  "riskRank r = (case r of LowRisk \<Rightarrow> 0 | MediumRisk \<Rightarrow> 1 | HighRisk \<Rightarrow> 2 | Critical \<Rightarrow> 3)"

definition categoryOrder :: "string list" where
  "categoryOrder =
     [''feature'', ''bugfix'', ''refactor'', ''test'', ''docs'', ''config'', ''style'',
      ''infra'', ''security'']"

text \<open>The change set of the scenario: a login module and a README.\<close>

definition loginFile :: DiffFile where
  "loginFile =
     \<lparr>DiffFile.path = ''src/auth/login.ts'', status = Modified, additions = 120,
      deletions = 10, hunks = 1, binary = False, oldPath = None\<rparr>"

definition readmeFile :: DiffFile where
  "readmeFile =
     \<lparr>DiffFile.path = ''README.md'', status = Added, additions = 5, deletions = 0,
      hunks = 1, binary = False, oldPath = None\<rparr>"

definition largeDeletedKeyFile :: DiffFile where
  "largeDeletedKeyFile =
     \<lparr>DiffFile.path = ''src/auth/token-key.bin'', status = Deleted, additions = 0,
      deletions = 900, hunks = 1, binary = True, oldPath = None\<rparr>"

text \<open>
  A runtime for the examples: a project directory without any file, in which git
  answers with empty output. Its conversions read the decimal digits at the start of a
  text, and its path functions are the ones of POSIX on the plain paths of the examples.
\<close>

definition decimalValue :: "string \<Rightarrow> nat" where
  "decimalValue s =
     foldl (\<lambda>n c. 10 * n + length (takeWhile (\<lambda>d. d \<noteq> c) ''0123456789'')) 0
       (takeWhile isDigit s)"

definition lastSegment :: "string \<Rightarrow> string" where
  "lastSegment p = last (str_split p ''/'')"

definition emptyProject :: runtime where
  "emptyProject =
     \<lparr>execSync = (\<lambda>cmd cwd. Inr []),
      process_cwd = ''/repo'',
      parseInt = (\<lambda>s. int (decimalValue s)),
      Number = (\<lambda>s. of_nat (decimalValue s)),
      JSON_parse = (\<lambda>s. None),
      existsSync = (\<lambda>p. False),
      readFileSync = (\<lambda>p. Inl (Error ''ENOENT: no such file or directory'')),
      join = (\<lambda>parts. array_join parts ''/''),
      resolve = (\<lambda>dir p. dir @ ''/'' @ p),
      basename = lastSegment,
      extname = (\<lambda>p. if length (str_split (lastSegment p) ''.'') > 1
                      then ''.'' @ last (str_split (lastSegment p) ''.'')
                      else []),
      matchCount = (\<lambda>r content. 0)\<rparr>"

definition noOptions :: RouteOptions where
  "noOptions = \<lparr>projectRoot = None, threshold = None, useRuvector = None\<rparr>"

text \<open>A directory that is not a repository: git fails.\<close>

definition notARepository :: runtime where
  "notARepository =
     emptyProject\<lparr>execSync := (\<lambda>cmd cwd. Inl (Error ''fatal: not a git repository''))\<rparr>"

text \<open>A repository in which git lists the two files of the scenario.\<close>

definition scenarioRepository :: runtime where
  "scenarioRepository =
     emptyProject\<lparr>execSync := (\<lambda>cmd cwd.
        if cmd = ''git diff --numstat HEAD~1''
        then Inr (''120'' @ tab @ ''10'' @ tab @ ''src/auth/login.ts'' @ newline @
                  ''5'' @ tab @ ''0'' @ tab @ ''README.md'' @ newline)
        else if cmd = ''git diff --name-status HEAD~1''
        then Inr (''M'' @ tab @ ''src/auth/login.ts'' @ newline @
                  ''A'' @ tab @ ''README.md'' @ newline)
        else Inl (Error ''unknown command''))\<rparr>"

text \<open>An LCOV record with two measured lines and no branch or function data.\<close>

definition lcovExample :: string where
  "lcovExample =
     ''SF:src/a.ts'' @ newline @ ''DA:1,1'' @ newline @ ''DA:2,0'' @ newline @
     ''LF:2'' @ newline @ ''LH:1'' @ newline"

text \<open>
  Entries of an Istanbul/c8 report: a detailed one of a file without statements,
  branches and functions, and summaries with the percentages 0, 10 and 50.
\<close>

definition noIstanbulData :: IstanbulFile where
  "noIstanbulData =
     \<lparr>IstanbulFile.path = None, s_hits = None, b_hits = None, f_hits = None,
      statementMap = None, branchMap = None, fnMap = None, lines_summary = None,
      statements_summary = None, functions_summary = None, branches_summary = None\<rparr>"

definition detailedEmptyFile :: IstanbulFile where
  "detailedEmptyFile =
     noIstanbulData\<lparr>IstanbulFile.path := Some ''src/empty.ts'', s_hits := Some [],
       b_hits := Some [], f_hits := Some [], statementMap := Some [], branchMap := Some [],
       fnMap := Some []\<rparr>"

definition zeroSummaryFile :: IstanbulFile where
  "zeroSummaryFile =
     noIstanbulData\<lparr>lines_summary := Some \<lparr>total = 0, covered = 0, pct = 0\<rparr>,
       statements_summary := Some \<lparr>total = 0, covered = 0, pct = 0\<rparr>\<rparr>"

definition lowSummaryFile :: IstanbulFile where
  "lowSummaryFile =
     noIstanbulData\<lparr>lines_summary := Some \<lparr>total = 100, covered = 10, pct = 10\<rparr>,
       statements_summary := Some \<lparr>total = 100, covered = 10, pct = 10\<rparr>,
       functions_summary := Some \<lparr>total = 10, covered = 1, pct = 10\<rparr>,
       branches_summary := Some \<lparr>total = 20, covered = 2, pct = 10\<rparr>\<rparr>"

definition halfSummaryFile :: IstanbulFile where
  "halfSummaryFile =
     noIstanbulData\<lparr>lines_summary := Some \<lparr>total = 10, covered = 5, pct = 50\<rparr>\<rparr>"

text \<open>
  A project whose only coverage report is \<open>coverage/coverage-summary.json\<close>, with the
  given text, for which \<open>JSON.parse\<close> gives the given value.
\<close>

definition summaryProject :: "string \<Rightarrow> IstanbulReport \<Rightarrow> runtime" where
  "summaryProject text report =
     emptyProject\<lparr>
       existsSync := (\<lambda>p. p = ''/repo/coverage/coverage-summary.json''),
       readFileSync := (\<lambda>p. if p = ''/repo/coverage/coverage-summary.json'' then Inr text
                             else Inl (Error ''ENOENT: no such file or directory'')),
       JSON_parse := (\<lambda>s. if s = text then Some report else None)\<rparr>"

definition zeroSummaryText :: string where
  \<open>zeroSummaryText =
     ''{"src/empty.ts":{"lines":{"total":0,"covered":0,"pct":0},"statements":{"total":0,"covered":0,"pct":0}}}''\<close>

definition zeroSummaryProject :: runtime where
  "zeroSummaryProject = summaryProject zeroSummaryText [(''src/empty.ts'', Some zeroSummaryFile)]"

definition nullEntryText :: string where
  \<open>nullEntryText =
     ''{"src/a.ts":{"lines":{"total":10,"covered":5,"pct":50}},"src/b.ts":null}''\<close>

definition truncatedText :: string where
  \<open>truncatedText = ''{"src/a.ts":{"lines":''\<close>

definition nullEntryReport :: IstanbulReport where
  "nullEntryReport = [(''src/a.ts'', Some halfSummaryFile), (''src/b.ts'', None)]"

definition nullEntryProject :: runtime where
  "nullEntryProject = summaryProject nullEntryText nullEntryReport"

definition lowSummaryText :: string where
  \<open>lowSummaryText =
     ''{"lines":{"total":100,"covered":10,"pct":10},"statements":{"total":100,"covered":10,"pct":10},"functions":{"total":10,"covered":1,"pct":10},"branches":{"total":20,"covered":2,"pct":10}}''\<close>

definition quoted :: "string \<Rightarrow> string" where
  \<open>quoted s = ''"'' @ s @ ''"''\<close>

text \<open>The scenario of the payment module: one file, covered to a tenth.\<close>

definition paymentProject :: runtime where
  "paymentProject =
     summaryProject (''{'' @ quoted ''src/services/payment.ts'' @ '':'' @ lowSummaryText @ ''}'')
       [(''src/services/payment.ts'', Some lowSummaryFile)]"

definition paymentTask :: string where
  "paymentTask = ''write unit tests for the payment module''"

text \<open>A project with eleven files, each covered to a tenth.\<close>

definition elevenNames :: "string list" where
  "elevenNames = map (\<lambda>n. ''src/f'' @ show_nat n @ ''.ts'') [1 ..< 12]"

definition elevenFilesProject :: runtime where
  "elevenFilesProject =
     summaryProject
       (''{'' @ array_join (map (\<lambda>n. quoted n @ '':'' @ lowSummaryText) elevenNames) '','' @ ''}'')
       (map (\<lambda>n. (n, Some lowSummaryFile)) elevenNames)"




definition lcovExampleData :: CoverageData where
  "lcovExampleData =
     (emptyCoverageData ''src/a.ts'')\<lparr>lineCoverage := 50, branchCoverage := 100,
        functionCoverage := 100, statementCoverage := 50,
        CoverageData.uncoveredLines := [2], totalLines := 2, coveredLines := 1\<rparr>"

definition securityTask :: string where
  "securityTask = ''Review the Auth middleware''"

section \<open>Properties of diff-classifier.ts\<close>

subsection \<open>The risk of a file\<close>

lemma highRiskLoop_nonneg: "0 \<le> fst st \<Longrightarrow> 0 \<le> fst (highRiskLoop ps p st)"
  by (induction ps p st rule: highRiskLoop.induct) auto

lemma mediumRiskLoop_nonneg: "0 \<le> fst st \<Longrightarrow> 0 \<le> fst (mediumRiskLoop ps p st)"
  by (induction ps p st rule: mediumRiskLoop.induct) auto

lemma safeLoop_nonneg: "0 \<le> fst st \<Longrightarrow> 0 \<le> fst (safeLoop ps p st)"
  by (induction ps p st rule: safeLoop.induct) auto

lemma sizeScore_nonneg: "0 \<le> fst (sizeScore n)"
  by (simp add: sizeScore_def)

lemma score_nonneg: "0 \<le> score (assessFileRisk f)"
  by (simp add: assessFileRisk_def Let_def sizeScore_nonneg highRiskLoop_nonneg
      mediumRiskLoop_nonneg safeLoop_nonneg)

lemma score_le_100: "score (assessFileRisk f) \<le> 100"
  by (simp add: assessFileRisk_def Let_def)

lemma risk_of_score:
  "risk (assessFileRisk f) =
     (if score (assessFileRisk f) \<ge> 70 then Critical
      else if score (assessFileRisk f) \<ge> 50 then HighRisk
      else if score (assessFileRisk f) \<ge> 25 then MediumRisk
      else LowRisk)"
  by (simp add: assessFileRisk_def Let_def)

text \<open>
  Claim C7. For every DiffFile \<open>f\<close>, the score that \<open>assessFileRisk\<close> gives lies
  between 0 and 100, the risk label is the one that the thresholds 70, 50 and 25 give for
  that score, and a file with a score at least as high has a label at least as high.
\<close>

theorem assessFileRisk_score_and_label:
  "0 \<le> score (assessFileRisk f) \<and> score (assessFileRisk f) \<le> 100 \<and>
   risk (assessFileRisk f) =
     (if score (assessFileRisk f) \<ge> 70 then Critical
      else if score (assessFileRisk f) \<ge> 50 then HighRisk
      else if score (assessFileRisk f) \<ge> 25 then MediumRisk
      else LowRisk) \<and>
   (score (assessFileRisk f) \<le> score (assessFileRisk g) \<longrightarrow>
      riskRank (risk (assessFileRisk f)) \<le> riskRank (risk (assessFileRisk g)))"
proof -
  have mono: "score (assessFileRisk f) \<le> score (assessFileRisk g) \<longrightarrow>
      riskRank (risk (assessFileRisk f)) \<le> riskRank (risk (assessFileRisk g))"
    by (simp add: risk_of_score [of f] risk_of_score [of g] riskRank_def)
  show ?thesis
    using score_nonneg [of f] score_le_100 [of f] risk_of_score [of f] mono by blast
qed

lemma login_risk: "score (assessFileRisk loginFile) = 35 \<and> risk (assessFileRisk loginFile) = MediumRisk"
  by code_simp

lemma key_risk: "score (assessFileRisk largeDeletedKeyFile) = 80 \<and> risk (assessFileRisk largeDeletedKeyFile) = Critical"
  by code_simp

theorem assessFileRisk_score_and_label_witness:
  "score (assessFileRisk loginFile) = 35 \<and>
   score (assessFileRisk largeDeletedKeyFile) = 80 \<and>
   risk (assessFileRisk loginFile) = MediumRisk \<and>
   risk (assessFileRisk largeDeletedKeyFile) = Critical \<and>
   riskRank (risk (assessFileRisk loginFile))
     \<le> riskRank (risk (assessFileRisk largeDeletedKeyFile))"
  using assessFileRisk_score_and_label [of loginFile largeDeletedKeyFile] login_risk key_risk
  by simp

subsection \<open>The dominant category\<close>

lemma increment_keys: "map fst (increment c cats) = map fst cats"
  by (induction cats) (auto simp: increment_def)

lemma countCategories_keys: "map fst (countCategories files cats) = map fst cats"
  by (induction files arbitrary: cats) (simp_all add: increment_keys)

text \<open>
  The scan leaves its state as it is, or stops at the first entry that holds the
  largest count.
\<close>

lemma dominantLoop_cases:
  "dominantLoop cs (m, c) = (m', c') \<Longrightarrow>
     (m' = m \<and> c' = c \<and> (\<forall>n \<in> snd ` set cs. n \<le> m)) \<or>
     (\<exists>pre post. cs = pre @ (c', m') # post \<and> m < m' \<and>
        (\<forall>n \<in> snd ` set pre. n < m') \<and> (\<forall>n \<in> snd ` set post. n \<le> m'))"
proof (induction cs arbitrary: m c)
  case Nil
  then show ?case by simp
next
  case (Cons x cs)
  obtain k n where x: "x = (k, n)" by (cases x)
  show ?case
  proof (cases "n > m")
    case True
    with Cons.prems x have run: "dominantLoop cs (n, k) = (m', c')" by simp
    from Cons.IH [OF run] show ?thesis
    proof
      assume "m' = n \<and> c' = k \<and> (\<forall>n' \<in> snd ` set cs. n' \<le> n)"
      then have "x # cs = [] @ (c', m') # cs \<and> m < m' \<and>
          (\<forall>n \<in> snd ` set []. n < m') \<and> (\<forall>n \<in> snd ` set cs. n \<le> m')"
        using True x by simp
      then show ?thesis by blast
    next
      assume "\<exists>pre post. cs = pre @ (c', m') # post \<and> n < m' \<and>
        (\<forall>n \<in> snd ` set pre. n < m') \<and> (\<forall>n \<in> snd ` set post. n \<le> m')"
      then obtain pre post where s: "cs = pre @ (c', m') # post" "n < m'"
        "\<forall>n \<in> snd ` set pre. n < m'" "\<forall>n \<in> snd ` set post. n \<le> m'" by blast
      then have "x # cs = (x # pre) @ (c', m') # post \<and> m < m' \<and>
          (\<forall>n \<in> snd ` set (x # pre). n < m') \<and> (\<forall>n \<in> snd ` set post. n \<le> m')"
        using True x by auto
      then show ?thesis by blast
    qed
  next
    case False
    with Cons.prems x have run: "dominantLoop cs (m, c) = (m', c')" by simp
    from Cons.IH [OF run] show ?thesis
    proof
      assume "m' = m \<and> c' = c \<and> (\<forall>n' \<in> snd ` set cs. n' \<le> m)"
      then show ?thesis using False x by auto
    next
      assume "\<exists>pre post. cs = pre @ (c', m') # post \<and> m < m' \<and>
        (\<forall>n \<in> snd ` set pre. n < m') \<and> (\<forall>n \<in> snd ` set post. n \<le> m')"
      then obtain pre post where s: "cs = pre @ (c', m') # post" "m < m'"
        "\<forall>n \<in> snd ` set pre. n < m'" "\<forall>n \<in> snd ` set post. n \<le> m'" by blast
      then have "x # cs = (x # pre) @ (c', m') # post \<and> m < m' \<and>
          (\<forall>n \<in> snd ` set (x # pre). n < m') \<and> (\<forall>n \<in> snd ` set post. n \<le> m')"
        using False x by auto
      then show ?thesis by blast
    qed
  qed
qed

lemma find_first_max:
  assumes "\<forall>n \<in> snd ` set pre. n < (m::nat)"
  shows "find (\<lambda>(k, n). n = m) (pre @ (c, m) # post) = Some (c, m)"
  using assms by (induction pre) auto

lemma find_SomeD: "find P xs = Some x \<Longrightarrow> P x"
  by (induction xs) (auto split: if_splits)

lemma Max_split:
  assumes "\<forall>n \<in> snd ` set pre. n < (m::nat)" "\<forall>n \<in> snd ` set post. n \<le> m"
  shows "Max (snd ` set (pre @ (c, m) # post)) = m"
proof (rule Max_eqI)
  show "finite (snd ` set (pre @ (c, m) # post))" by simp
  show "\<And>y. y \<in> snd ` set (pre @ (c, m) # post) \<Longrightarrow> y \<le> m"
    using assms by fastforce
  show "m \<in> snd ` set (pre @ (c, m) # post)" by force
qed

lemma dominant_is_first_max:
  assumes keys: "cs = (''feature'', n0) # rest"
    and run: "dominantLoop cs (0, ''feature'') = (m', c')"
  shows "find (\<lambda>(k, n). n = Max (snd ` set cs)) cs = Some (c', m')"
proof -
  from dominantLoop_cases [OF run] show ?thesis
  proof
    assume a: "m' = 0 \<and> c' = ''feature'' \<and> (\<forall>n \<in> snd ` set cs. n \<le> 0)"
    then have zero: "\<forall>n \<in> snd ` set cs. n = 0" by simp
    have "snd ` set cs = {0}" using zero keys by auto
    then have "Max (snd ` set cs) = 0" by simp
    moreover have "n0 = 0" using zero keys by simp
    ultimately show ?thesis using a keys by simp
  next
    assume "\<exists>pre post. cs = pre @ (c', m') # post \<and> 0 < m' \<and>
        (\<forall>n \<in> snd ` set pre. n < m') \<and> (\<forall>n \<in> snd ` set post. n \<le> m')"
    then obtain pre post where s: "cs = pre @ (c', m') # post"
        "\<forall>n \<in> snd ` set pre. n < m'" "\<forall>n \<in> snd ` set post. n \<le> m'" by blast
    show ?thesis
      unfolding s(1) Max_split [OF s(2) s(3)] by (rule find_first_max [OF s(2)])
  qed
qed

lemma category_classifyDiff:
  "category (classifyDiff files)
     = snd (dominantLoop (countCategories files initialCategories) (0, ''feature''))"
  by (simp add: classifyDiff_def Let_def split: prod.splits)

lemma countCategories_shape:
  "\<exists>n0 rest. countCategories files initialCategories = (''feature'', n0) # rest"
proof -
  have "map fst (countCategories files initialCategories) = map fst initialCategories"
    by (rule countCategories_keys)
  then show ?thesis
    by (cases "countCategories files initialCategories") (auto simp: initialCategories_def)
qed

text \<open>
  Claim C2. For every file list, the counters of \<open>classifyDiff\<close> stand in the fixed
  enumeration order, and the category returned is the one of the first counter, in that
  order, that holds the maximum: where counters tie at the maximum, the first of them
  wins. A change set that gives docs = 1 and security = 1, and 0 elsewhere, is
  classified as docs.
\<close>

theorem classifyDiff_tie_break:
  "map fst (countCategories files initialCategories) = categoryOrder \<and>
   find (\<lambda>(k, n). n = Max (snd ` set (countCategories files initialCategories)))
        (countCategories files initialCategories)
     = Some (category (classifyDiff files),
             Max (snd ` set (countCategories files initialCategories))) \<and>
   (countCategories files initialCategories =
      [(''feature'', 0), (''bugfix'', 0), (''refactor'', 0), (''test'', 0), (''docs'', 1),
       (''config'', 0), (''style'', 0), (''infra'', 0), (''security'', 1)]
    \<longrightarrow> category (classifyDiff files) = ''docs'')"
proof -
  let ?cs = "countCategories files initialCategories"
  obtain m' c' where run: "dominantLoop ?cs (0, ''feature'') = (m', c')"
    by (cases "dominantLoop ?cs (0, ''feature'')")
  obtain n0 rest where shape: "?cs = (''feature'', n0) # rest"
    using countCategories_shape by blast
  have cat: "category (classifyDiff files) = c'"
    by (simp add: category_classifyDiff run)
  have first: "find (\<lambda>(k, n). n = Max (snd ` set ?cs)) ?cs = Some (c', m')"
    by (rule dominant_is_first_max [OF shape run])
  from find_SomeD [OF first] have "m' = Max (snd ` set ?cs)"
    by simp
  with first cat have a: "find (\<lambda>(k, n). n = Max (snd ` set ?cs)) ?cs
      = Some (category (classifyDiff files), Max (snd ` set ?cs))" by simp
  have b: "map fst ?cs = categoryOrder"
    by (simp add: countCategories_keys initialCategories_def categoryOrder_def)
  have c: "?cs =
      [(''feature'', 0), (''bugfix'', 0), (''refactor'', 0), (''test'', 0), (''docs'', 1),
       (''config'', 0), (''style'', 0), (''infra'', 0), (''security'', 1)]
    \<longrightarrow> category (classifyDiff files) = ''docs''"
    by (simp add: category_classifyDiff)
  from a b c show ?thesis by blast
qed

lemma scenario_counts:
  "countCategories [loginFile, readmeFile] initialCategories =
      [(''feature'', 0), (''bugfix'', 0), (''refactor'', 0), (''test'', 0), (''docs'', 1),
       (''config'', 0), (''style'', 0), (''infra'', 0), (''security'', 1)]"
  by code_simp

theorem classifyDiff_tie_break_witness:
  "countCategories [loginFile, readmeFile] initialCategories =
      [(''feature'', 0), (''bugfix'', 0), (''refactor'', 0), (''test'', 0), (''docs'', 1),
       (''config'', 0), (''style'', 0), (''infra'', 0), (''security'', 1)] \<and>
   category (classifyDiff [loginFile, readmeFile]) = ''docs''"
  using classifyDiff_tie_break [of "[loginFile, readmeFile]"] scenario_counts by blast

subsection \<open>The git adapter\<close>

text \<open>
  Claim C9. Where one of the two git queries of \<open>getGitDiffNumstat\<close> reports an
  error, the result is an error whose message starts with
  \<open>Failed to get git diff numstat:\<close>, and no file list. A file list is returned
  only where both queries succeeded, and then it is the whole list parsed from their
  outputs.
\<close>

theorem getGitDiffNumstat_all_or_error:
  "((\<exists>e. execSync rt (''git diff --numstat '' @ ref) (cwdOrDefault rt cwd) = Inl e) \<or>
    (\<exists>e. execSync rt (''git diff --name-status '' @ ref) (cwdOrDefault rt cwd) = Inl e)
    \<longrightarrow> (\<exists>msg. getGitDiffNumstat rt ref cwd
                 = Inl (Error (''Failed to get git diff numstat: '' @ msg)))) \<and>
   (getGitDiffNumstat rt ref cwd = Inr files
    \<longrightarrow> (\<exists>numstat nameStatus.
           execSync rt (''git diff --numstat '' @ ref) (cwdOrDefault rt cwd) = Inr numstat \<and>
           execSync rt (''git diff --name-status '' @ ref) (cwdOrDefault rt cwd)
             = Inr nameStatus \<and>
           files = parseNumstat rt numstat nameStatus))"
proof -
  have err: "\<exists>msg. numstatError e = Error (''Failed to get git diff numstat: '' @ msg)" for e
    by (cases e) (simp add: numstatError_def)
  show ?thesis
    using err by (auto simp: getGitDiffNumstat_def split: sum.splits)
qed

lemma not_a_repository_fails:
  "execSync notARepository (''git diff --numstat '' @ ''HEAD~1'') (cwdOrDefault notARepository None)
     = Inl (Error ''fatal: not a git repository'')"
  by (simp add: notARepository_def)

lemma not_a_repository_result:
  "getGitDiffNumstat notARepository ''HEAD~1'' None
     = Inl (Error ''Failed to get git diff numstat: fatal: not a git repository'')"
  by code_simp

lemma scenario_result:
  "getGitDiffNumstat scenarioRepository ''HEAD~1'' None = Inr [loginFile, readmeFile]"
  by code_simp

theorem getGitDiffNumstat_all_or_error_witness:
  "execSync notARepository (''git diff --numstat '' @ ''HEAD~1'') (cwdOrDefault notARepository None)
     = Inl (Error ''fatal: not a git repository'') \<and>
   getGitDiffNumstat notARepository ''HEAD~1'' None
     = Inl (Error ''Failed to get git diff numstat: fatal: not a git repository'') \<and>
   getGitDiffNumstat scenarioRepository ''HEAD~1'' None = Inr [loginFile, readmeFile]"
  using getGitDiffNumstat_all_or_error [of notARepository "''HEAD~1''" None "[]"]
    getGitDiffNumstat_all_or_error [of scenarioRepository "''HEAD~1''" None "[loginFile, readmeFile]"]
    not_a_repository_fails not_a_repository_result scenario_result
  by blast

section \<open>Properties of coverage-router.ts\<close>

subsection \<open>Sorting and filtering\<close>



lemma length_insertSorted: "length (insertSorted cmp x xs) = Suc (length xs)"
  by (induction xs) auto

lemma length_array_sort: "length (array_sort cmp xs) = length xs"
  by (induction xs) (simp_all add: array_sort_def length_insertSorted)



lemma set_map_filter: "set (List.map_filter f xs) = {y. \<exists>x \<in> set xs. f x = Some y}"
  by (induction xs) (auto simp: List.map_filter_def)

subsection \<open>The gaps of analyzeCoverageGaps\<close>














subsection \<open>Loading coverage data\<close>

lemma findCoverageReports_empty:
  assumes "\<forall>p \<in> set (lcovPaths rt rootDir @ summaryPaths rt rootDir). \<not> existsSync rt p"
  shows "findCoverageReports rt rootDir = []"
proof -
  from assms have "filter (existsSync rt) (lcovPaths rt rootDir) = []"
    "filter (existsSync rt) (summaryPaths rt rootDir) = []"
    by (auto simp: filter_empty_conv)
  then show ?thesis by (simp add: findCoverageReports_def)
qed

text \<open>
  Claim C8. Where no report exists at any of the three LCOV and the three Istanbul/c8
  locations, \<open>loadCoverageData\<close> returns, without an error, the empty data set with
  the format \<open>none\<close> and no report path.
\<close>

theorem loadCoverageData_no_report:
  assumes "\<forall>p \<in> set (lcovPaths rt rootDir @ summaryPaths rt rootDir). \<not> existsSync rt p"
  shows "loadCoverageData rt rootDir = Inr \<lparr>data = [], format = ''none'', reportPath = None\<rparr>"
  by (simp add: loadCoverageData_def findCoverageReports_empty [OF assms] noCoverage_def)

lemma empty_project_paths:
  "lcovPaths emptyProject ''/repo'' @ summaryPaths emptyProject ''/repo''
   = [''/repo/coverage/lcov.info'', ''/repo/lcov.info'',
      ''/repo/coverage/lcov-report/lcov.info'', ''/repo/coverage/coverage-summary.json'',
      ''/repo/coverage/coverage-final.json'', ''/repo/.nyc_output/coverage-summary.json'']"
  by code_simp

theorem loadCoverageData_no_report_witness:
  "lcovPaths emptyProject ''/repo'' @ summaryPaths emptyProject ''/repo''
   = [''/repo/coverage/lcov.info'', ''/repo/lcov.info'',
      ''/repo/coverage/lcov-report/lcov.info'', ''/repo/coverage/coverage-summary.json'',
      ''/repo/coverage/coverage-final.json'', ''/repo/.nyc_output/coverage-summary.json''] \<and>
   loadCoverageData emptyProject ''/repo''
   = Inr \<lparr>data = [], format = ''none'', reportPath = None\<rparr>"
proof -
  have "\<forall>p \<in> set (lcovPaths emptyProject ''/repo'' @ summaryPaths emptyProject ''/repo'').
          \<not> existsSync emptyProject p"
    by (simp add: emptyProject_def)
  from loadCoverageData_no_report [OF this] empty_project_paths show ?thesis by simp
qed

subsection \<open>The routing facade\<close>

lemma routeGaps_analyze:
  "routeGaps rt coverageData rootDir thr = analyzeCoverageGaps rt coverageData rootDir thr"
  by (cases coverageData) (simp_all add: routeGaps_def analyzeCoverageGaps_def array_sort_def List.map_filter_def)

text \<open>
  Claim C10. The result of \<open>coverageRoute\<close> holds at most 10 gaps, the first 10 of
  the list that \<open>analyzeCoverageGaps\<close> produced, while \<open>metrics.totalGaps\<close> is the
  length of that whole list.
\<close>

theorem coverageRoute_gaps_limited:
  "(loadCoverageData rt (optionsRoot rt options) = Inl e
      \<longrightarrow> coverageRoute rt taskText options = Inl e) \<and>
   (loadCoverageData rt (optionsRoot rt options) = Inr loaded
      \<longrightarrow> (\<exists>res. coverageRoute rt taskText options = Inr res \<and>
             length (gaps res) \<le> 10 \<and>
             gaps res = take 10 (analyzeCoverageGaps rt (data loaded) (optionsRoot rt options)
                                  (optionsThreshold options)) \<and>
             totalGaps (metrics res)
               = length (analyzeCoverageGaps rt (data loaded) (optionsRoot rt options)
                           (optionsThreshold options))))"
  by (simp add: coverageRoute_def Let_def routeGaps_analyze)

lemma eleven_files_load:
  "loadCoverageData elevenFilesProject (optionsRoot elevenFilesProject noOptions)
     = Inr (projr (loadCoverageData elevenFilesProject ''/repo''))"
  by code_simp

lemma eleven_files_route:
  "length (gaps (projr (coverageRoute elevenFilesProject paymentTask noOptions))) = 10 \<and>
   totalGaps (metrics (projr (coverageRoute elevenFilesProject paymentTask noOptions))) = 11"
  by code_simp

theorem coverageRoute_gaps_limited_witness:
  "loadCoverageData elevenFilesProject (optionsRoot elevenFilesProject noOptions)
     = Inr (projr (loadCoverageData elevenFilesProject ''/repo'')) \<and>
   coverageRoute elevenFilesProject paymentTask noOptions
     = Inr (projr (coverageRoute elevenFilesProject paymentTask noOptions)) \<and>
   length (gaps (projr (coverageRoute elevenFilesProject paymentTask noOptions))) = 10 \<and>
   totalGaps (metrics (projr (coverageRoute elevenFilesProject paymentTask noOptions))) = 11"
proof -
  from coverageRoute_gaps_limited
         [of elevenFilesProject noOptions _ paymentTask
             "projr (loadCoverageData elevenFilesProject ''/repo'')"]
    eleven_files_load
  obtain res where "coverageRoute elevenFilesProject paymentTask noOptions = Inr res"
    by blast
  then have "coverageRoute elevenFilesProject paymentTask noOptions
     = Inr (projr (coverageRoute elevenFilesProject paymentTask noOptions))"
    by simp
  with eleven_files_load eleven_files_route show ?thesis by blast
qed

lemma determineRouting_cases:
  "determineRouting taskText gapList =
     (if gapList = [] then defaultRouting
      else if str_includes (toLowerCase taskText) ''test'' \<or> str_includes (toLowerCase taskText) ''coverage''
      then (determineRouting taskText gapList)\<lparr>primaryAgent := ''tester'', confidence := 9 / 10\<rparr>
      else if str_includes (toLowerCase taskText) ''security'' \<or> str_includes (toLowerCase taskText) ''auth''
      then (determineRouting taskText gapList)\<lparr>primaryAgent := ''security-architect'', confidence := 88 / 100\<rparr>
      else determineRouting taskText gapList)"
  by (simp add: determineRouting_def Let_def split: list.splits)

text \<open>
  Claim C1, amended. Where the gap list is not empty, a task whose text, in lower case,
  contains \<open>test\<close> or \<open>coverage\<close> is routed to \<open>tester\<close> with confidence 0.9, and
  a task that contains neither of them but \<open>security\<close> or \<open>auth\<close> is routed to
  \<open>security-architect\<close> with confidence 0.88, whatever agent the gaps suggest. Where
  the gap list is empty the keywords are not looked at, and the routing is the default
  one.
\<close>

theorem coverageRoute_keyword_override:
  assumes "loadCoverageData rt (optionsRoot rt options) = Inr loaded"
  shows "\<exists>res. coverageRoute rt taskText options = Inr res \<and>
         (gaps res \<noteq> [] \<longrightarrow>
           (str_includes (toLowerCase taskText) ''test'' \<or>
            str_includes (toLowerCase taskText) ''coverage''
            \<longrightarrow> primaryAgent (routing res) = ''tester'' \<and> confidence (routing res) = 9 / 10) \<and>
           (\<not> str_includes (toLowerCase taskText) ''test'' \<and>
            \<not> str_includes (toLowerCase taskText) ''coverage'' \<and>
            (str_includes (toLowerCase taskText) ''security'' \<or>
             str_includes (toLowerCase taskText) ''auth'')
            \<longrightarrow> primaryAgent (routing res) = ''security-architect'' \<and>
                confidence (routing res) = 88 / 100)) \<and>
         (gaps res = [] \<longrightarrow> routing res = defaultRouting)"
proof -
  from assms obtain res gapList where res: "coverageRoute rt taskText options = Inr res"
    "routing res = determineRouting taskText gapList" "gaps res = take 10 gapList"
    by (simp add: coverageRoute_def Let_def)
  have empty: "gaps res = [] \<longleftrightarrow> gapList = []"
    using res(3) by (cases gapList) simp_all
  have "(gaps res \<noteq> [] \<longrightarrow>
           (str_includes (toLowerCase taskText) ''test'' \<or>
            str_includes (toLowerCase taskText) ''coverage''
            \<longrightarrow> primaryAgent (routing res) = ''tester'' \<and> confidence (routing res) = 9 / 10) \<and>
           (\<not> str_includes (toLowerCase taskText) ''test'' \<and>
            \<not> str_includes (toLowerCase taskText) ''coverage'' \<and>
            (str_includes (toLowerCase taskText) ''security'' \<or>
             str_includes (toLowerCase taskText) ''auth'')
            \<longrightarrow> primaryAgent (routing res) = ''security-architect'' \<and>
                confidence (routing res) = 88 / 100)) \<and>
         (gaps res = [] \<longrightarrow> routing res = defaultRouting)"
    unfolding res(2) empty
    by (subst (1 2 3 4 5) determineRouting_cases) auto
  with res(1) show ?thesis by blast
qed

lemma payment_load:
  "loadCoverageData paymentProject (optionsRoot paymentProject noOptions)
     = Inr (projr (loadCoverageData paymentProject ''/repo''))"
  by code_simp

lemma payment_route:
  "gaps (projr (coverageRoute paymentProject paymentTask noOptions)) \<noteq> [] \<and>
   str_includes (toLowerCase paymentTask) ''test'' \<and>
   primaryAgent (routing (projr (coverageRoute paymentProject paymentTask noOptions)))
     = ''tester'' \<and>
   confidence (routing (projr (coverageRoute paymentProject paymentTask noOptions))) = 9 / 10"
  by code_simp

lemma security_route:
  "gaps (projr (coverageRoute paymentProject securityTask noOptions)) \<noteq> [] \<and>
   \<not> str_includes (toLowerCase securityTask) ''test'' \<and>
   \<not> str_includes (toLowerCase securityTask) ''coverage'' \<and>
   str_includes (toLowerCase securityTask) ''auth'' \<and>
   primaryAgent (routing (projr (coverageRoute paymentProject securityTask noOptions)))
     = ''security-architect'' \<and>
   confidence (routing (projr (coverageRoute paymentProject securityTask noOptions)))
     = 88 / 100"
  by code_simp

theorem coverageRoute_keyword_override_witness:
  "loadCoverageData paymentProject (optionsRoot paymentProject noOptions)
     = Inr (projr (loadCoverageData paymentProject ''/repo'')) \<and>
   coverageRoute paymentProject paymentTask noOptions
     = Inr (projr (coverageRoute paymentProject paymentTask noOptions)) \<and>
   gaps (projr (coverageRoute paymentProject paymentTask noOptions)) \<noteq> [] \<and>
   str_includes (toLowerCase paymentTask) ''test'' \<and>
   primaryAgent (routing (projr (coverageRoute paymentProject paymentTask noOptions)))
     = ''tester'' \<and>
   confidence (routing (projr (coverageRoute paymentProject paymentTask noOptions))) = 9 / 10 \<and>
   coverageRoute paymentProject securityTask noOptions
     = Inr (projr (coverageRoute paymentProject securityTask noOptions)) \<and>
   gaps (projr (coverageRoute paymentProject securityTask noOptions)) \<noteq> [] \<and>
   \<not> str_includes (toLowerCase securityTask) ''test'' \<and>
   \<not> str_includes (toLowerCase securityTask) ''coverage'' \<and>
   str_includes (toLowerCase securityTask) ''auth'' \<and>
   primaryAgent (routing (projr (coverageRoute paymentProject securityTask noOptions)))
     = ''security-architect'' \<and>
   confidence (routing (projr (coverageRoute paymentProject securityTask noOptions)))
     = 88 / 100"
proof -
  from coverageRoute_keyword_override [OF payment_load, of paymentTask]
  obtain res where "coverageRoute paymentProject paymentTask noOptions = Inr res"
    by blast
  then have a: "coverageRoute paymentProject paymentTask noOptions
     = Inr (projr (coverageRoute paymentProject paymentTask noOptions))"
    by simp
  from coverageRoute_keyword_override [OF payment_load, of securityTask]
  obtain res' where "coverageRoute paymentProject securityTask noOptions = Inr res'"
    by blast
  then have b: "coverageRoute paymentProject securityTask noOptions
     = Inr (projr (coverageRoute paymentProject securityTask noOptions))"
    by simp
  from a b payment_load payment_route security_route show ?thesis by blast
qed

text \<open>
  Claim C1 as stated fails for an empty gap list: in a project without a coverage
  report the task of the scenario, which contains \<open>test\<close>, is routed to \<open>coder\<close> with
  confidence 0.75.
\<close>

theorem coverageRoute_keyword_override_counterexample:
  "str_includes (toLowerCase paymentTask) ''test'' \<and>
   coverageRoute emptyProject paymentTask noOptions
   = Inr \<lparr>success = True, task = paymentTask, coverageAware = False, gaps = [],
          routing = \<lparr>primaryAgent = ''coder'', confidence = 3 / 4,
                     reason = ''Default routing based on task analysis'',
                     coverageImpact = ''No coverage data available''\<rparr>,
          suggestions = [''Run tests with coverage to enable coverage-aware routing'',
                         ''Supported formats: lcov, istanbul (c8), nyc''],
          metrics = \<lparr>filesAnalyzed = 0, totalGaps = 0, criticalGaps = 0,
                     avgCoverage = 0\<rparr>\<rparr>"
  by code_simp

subsection \<open>The parsers\<close>

lemma linesFound_lcovLine:
  "\<not> startsWith l ''DA:'' \<Longrightarrow> linesFound (lcovLine rt st l) = linesFound st"
  by (simp add: lcovLine_def lcovDA_def lcovBRDA_def lcovFNDA_def lcovSummary_def Let_def
      split: list.splits)

lemma branchesFound_lcovLine:
  "\<not> startsWith l ''BRDA:'' \<Longrightarrow> branchesFound (lcovLine rt st l) = branchesFound st"
  by (simp add: lcovLine_def lcovDA_def lcovBRDA_def lcovFNDA_def lcovSummary_def Let_def
      split: list.splits)

lemma functionsFound_lcovLine:
  "\<not> startsWith l ''FNDA:'' \<Longrightarrow> functionsFound (lcovLine rt st l) = functionsFound st"
  by (simp add: lcovLine_def lcovDA_def lcovBRDA_def lcovFNDA_def lcovSummary_def Let_def
      split: list.splits)

lemma linesFound_foldl:
  "filter (\<lambda>l. startsWith l ''DA:'') ls = [] \<Longrightarrow>
   linesFound (foldl (lcovLine rt) st ls) = linesFound st"
  by (induction ls arbitrary: st) (auto simp: linesFound_lcovLine split: if_splits)

lemma branchesFound_foldl:
  "filter (\<lambda>l. startsWith l ''BRDA:'') ls = [] \<Longrightarrow>
   branchesFound (foldl (lcovLine rt) st ls) = branchesFound st"
  by (induction ls arbitrary: st) (auto simp: branchesFound_lcovLine split: if_splits)

lemma functionsFound_foldl:
  "filter (\<lambda>l. startsWith l ''FNDA:'') ls = [] \<Longrightarrow>
   functionsFound (foldl (lcovLine rt) st ls) = functionsFound st"
  by (induction ls arbitrary: st) (auto simp: functionsFound_lcovLine split: if_splits)

lemma parseLcovRecord_zero_units:
  assumes "parseLcovRecord rt record = Some d"
  shows "(filter (\<lambda>l. startsWith l ''DA:'') (lcovLines record) = []
            \<longrightarrow> lineCoverage d = 100 \<and> statementCoverage d = 100) \<and>
         (filter (\<lambda>l. startsWith l ''BRDA:'') (lcovLines record) = []
            \<longrightarrow> branchCoverage d = 100) \<and>
         (filter (\<lambda>l. startsWith l ''FNDA:'') (lcovLines record) = []
            \<longrightarrow> functionCoverage d = 100)"
  using assms
  by (auto simp: parseLcovRecord_def Let_def percentage_def linesFound_foldl
      branchesFound_foldl functionsFound_foldl split: if_splits option.splits)

lemma istanbulLoop_members:
  "d \<in> set (fst (istanbulLoop coverage files)) \<Longrightarrow>
     d \<in> set files \<or>
     (\<exists>p fd. (p, Some fd) \<in> set coverage \<and> p \<noteq> ''total'' \<and> d = istanbulEntry p fd)"
proof (induction coverage files rule: istanbulLoop.induct)
  case (1 files)
  then show ?case by simp
next
  case (2 entryPath fileData rest files)
  show ?case
  proof (cases "entryPath = ''total''")
    case True
    with 2 show ?thesis by auto
  next
    case False
    show ?thesis
    proof (cases fileData)
      case None
      with False "2.prems" show ?thesis by simp
    next
      case (Some fd)
      with False "2.prems" have "d \<in> set (fst (istanbulLoop rest (files @ [istanbulEntry entryPath fd])))"
        by simp
      from "2.IH"(2) [OF False Some this] show ?thesis
        using False Some by auto
    qed
  qed
qed

lemma parseIstanbulJson_members:
  assumes "d \<in> set (parseIstanbulJson rt jsonContent)"
  shows "\<exists>coverage p fd. JSON_parse rt jsonContent = Some coverage \<and>
        (p, Some fd) \<in> set coverage \<and> p \<noteq> ''total'' \<and> d = istanbulEntry p fd"
proof (cases "JSON_parse rt jsonContent")
  case None
  with assms show ?thesis by (simp add: parseIstanbulJson_def)
next
  case (Some coverage)
  with assms have "d \<in> set (fst (istanbulLoop coverage []))"
    by (simp add: parseIstanbulJson_def)
  from istanbulLoop_members [OF this] Some show ?thesis by auto
qed

lemma parseLcov_members:
  "d \<in> set (parseLcov rt lcovContent) \<longleftrightarrow>
     (\<exists>record \<in> set (str_split lcovContent ''end_of_record''). parseLcovRecord rt record = Some d)"
  by (simp add: parseLcov_def set_map_filter)

lemma hitsLoop_empty_total: "fst (hitsLoop [] info st) = fst st"
  by simp

lemma branchLoop_no_hits:
  "concat (map snd hitMap) = [] \<Longrightarrow> branchLoop hitMap brMap st = st"
  by (induction hitMap brMap st rule: branchLoop.induct) auto

lemma summary_shape:
  "lines_summary fs = Some ls \<Longrightarrow>
     lineCoverage (istanbulEntry p fs) = pct ls \<and>
     statementCoverage (istanbulEntry p fs)
       = (case statements_summary fs of None \<Rightarrow> pct ls | Some m \<Rightarrow> pct m) \<and>
     branchCoverage (istanbulEntry p fs)
       = (case branches_summary fs of None \<Rightarrow> 100 | Some m \<Rightarrow> pct m) \<and>
     functionCoverage (istanbulEntry p fs)
       = (case functions_summary fs of None \<Rightarrow> 100 | Some m \<Rightarrow> pct m)"
  by (simp add: istanbulEntry_def summaryEntry_def)

lemma detailed_statements_zero:
  "lines_summary fd = None \<Longrightarrow> s_hits fd = Some [] \<Longrightarrow> statementMap fd \<noteq> None \<Longrightarrow>
     statementCoverage (istanbulEntry p fd) = 100 \<and> lineCoverage (istanbulEntry p fd) = 100"
  by (auto simp: istanbulEntry_def detailedStatements_def detailedBranches_def
      detailedFunctions_def percentage_def Let_def split: option.splits prod.splits)

lemma detailed_branches_zero:
  "lines_summary fd = None \<Longrightarrow> b_hits fd = Some hitMap \<Longrightarrow> concat (map snd hitMap) = [] \<Longrightarrow>
   branchMap fd \<noteq> None \<Longrightarrow> branchCoverage (istanbulEntry p fd) = 100"
  by (auto simp: istanbulEntry_def detailedStatements_def detailedBranches_def
      detailedFunctions_def percentage_def Let_def branchLoop_no_hits
      split: option.splits prod.splits)

lemma detailed_functions_zero:
  "lines_summary fd = None \<Longrightarrow> f_hits fd = Some [] \<Longrightarrow> fnMap fd \<noteq> None \<Longrightarrow>
     functionCoverage (istanbulEntry p fd) = 100"
  by (auto simp: istanbulEntry_def detailedStatements_def detailedBranches_def
      detailedFunctions_def percentage_def Let_def split: option.splits prod.splits)

text \<open>
  Claim C3, amended. Every record that \<open>parseLcov\<close> returns is the one of a record of
  the input, and there a metric without a \<open>DA\<close>, \<open>BRDA\<close> or \<open>FNDA\<close> line has the
  percentage 100 (the statement percentage is the line percentage). Every record that
  \<open>parseIstanbulJson\<close> returns is the one of an entry of the report. For an entry of
  the detailed shape, a metric whose hit map and position map are both present and
  whose hit map holds no hit count has the percentage 100. For an entry of the summary
  shape the percentages are the \<open>pct\<close> values of the report, whatever its totals: the
  one of the statements is the one of the lines where the report has no statements,
  and the ones of the branches and of the functions are 100 where the report has none.
\<close>

theorem zero_units_percentage:
  "(\<forall>d \<in> set (parseLcov rt lcovContent).
      \<exists>r \<in> set (str_split lcovContent ''end_of_record''). parseLcovRecord rt r = Some d) \<and>
   (parseLcovRecord rt record = Some d \<longrightarrow>
      (filter (\<lambda>l. startsWith l ''DA:'') (lcovLines record) = []
         \<longrightarrow> lineCoverage d = 100 \<and> statementCoverage d = 100) \<and>
      (filter (\<lambda>l. startsWith l ''BRDA:'') (lcovLines record) = []
         \<longrightarrow> branchCoverage d = 100) \<and>
      (filter (\<lambda>l. startsWith l ''FNDA:'') (lcovLines record) = []
         \<longrightarrow> functionCoverage d = 100)) \<and>
   (\<forall>e \<in> set (parseIstanbulJson rt jsonContent).
      \<exists>coverage p fileData. JSON_parse rt jsonContent = Some coverage \<and>
        (p, Some fileData) \<in> set coverage \<and> p \<noteq> ''total'' \<and> e = istanbulEntry p fileData) \<and>
   (lines_summary fd = None \<longrightarrow>
      (s_hits fd = Some [] \<and> statementMap fd \<noteq> None
         \<longrightarrow> statementCoverage (istanbulEntry k fd) = 100 \<and>
             lineCoverage (istanbulEntry k fd) = 100) \<and>
      (b_hits fd = Some hitMap \<and> concat (map snd hitMap) = [] \<and> branchMap fd \<noteq> None
         \<longrightarrow> branchCoverage (istanbulEntry k fd) = 100) \<and>
      (f_hits fd = Some [] \<and> fnMap fd \<noteq> None
         \<longrightarrow> functionCoverage (istanbulEntry k fd) = 100)) \<and>
   (lines_summary fs = Some ls \<longrightarrow>
      lineCoverage (istanbulEntry k fs) = pct ls \<and>
      statementCoverage (istanbulEntry k fs)
        = (case statements_summary fs of None \<Rightarrow> pct ls | Some m \<Rightarrow> pct m) \<and>
      branchCoverage (istanbulEntry k fs)
        = (case branches_summary fs of None \<Rightarrow> 100 | Some m \<Rightarrow> pct m) \<and>
      functionCoverage (istanbulEntry k fs)
        = (case functions_summary fs of None \<Rightarrow> 100 | Some m \<Rightarrow> pct m))"
proof (intro conjI)
  show "\<forall>d \<in> set (parseLcov rt lcovContent).
      \<exists>r \<in> set (str_split lcovContent ''end_of_record''). parseLcovRecord rt r = Some d"
    by (simp add: parseLcov_members)
  show "parseLcovRecord rt record = Some d \<longrightarrow>
      (filter (\<lambda>l. startsWith l ''DA:'') (lcovLines record) = []
         \<longrightarrow> lineCoverage d = 100 \<and> statementCoverage d = 100) \<and>
      (filter (\<lambda>l. startsWith l ''BRDA:'') (lcovLines record) = []
         \<longrightarrow> branchCoverage d = 100) \<and>
      (filter (\<lambda>l. startsWith l ''FNDA:'') (lcovLines record) = []
         \<longrightarrow> functionCoverage d = 100)"
    using parseLcovRecord_zero_units by blast
  show "\<forall>e \<in> set (parseIstanbulJson rt jsonContent).
      \<exists>coverage p fileData. JSON_parse rt jsonContent = Some coverage \<and>
        (p, Some fileData) \<in> set coverage \<and> p \<noteq> ''total'' \<and> e = istanbulEntry p fileData"
    using parseIstanbulJson_members by blast
  show "lines_summary fd = None \<longrightarrow>
      (s_hits fd = Some [] \<and> statementMap fd \<noteq> None
         \<longrightarrow> statementCoverage (istanbulEntry k fd) = 100 \<and>
             lineCoverage (istanbulEntry k fd) = 100) \<and>
      (b_hits fd = Some hitMap \<and> concat (map snd hitMap) = [] \<and> branchMap fd \<noteq> None
         \<longrightarrow> branchCoverage (istanbulEntry k fd) = 100) \<and>
      (f_hits fd = Some [] \<and> fnMap fd \<noteq> None
         \<longrightarrow> functionCoverage (istanbulEntry k fd) = 100)"
    using detailed_statements_zero detailed_branches_zero detailed_functions_zero by blast
  show "lines_summary fs = Some ls \<longrightarrow>
      lineCoverage (istanbulEntry k fs) = pct ls \<and>
      statementCoverage (istanbulEntry k fs)
        = (case statements_summary fs of None \<Rightarrow> pct ls | Some m \<Rightarrow> pct m) \<and>
      branchCoverage (istanbulEntry k fs)
        = (case branches_summary fs of None \<Rightarrow> 100 | Some m \<Rightarrow> pct m) \<and>
      functionCoverage (istanbulEntry k fs)
        = (case functions_summary fs of None \<Rightarrow> 100 | Some m \<Rightarrow> pct m)"
    using summary_shape by blast
qed

lemma lcov_example_record:
  "parseLcovRecord zeroSummaryProject lcovExample = Some lcovExampleData \<and>
   filter (\<lambda>l. startsWith l ''BRDA:'') (lcovLines lcovExample) = [] \<and>
   filter (\<lambda>l. startsWith l ''FNDA:'') (lcovLines lcovExample) = []"
  by code_simp

lemma detailed_example:
  "lines_summary detailedEmptyFile = None \<and>
   s_hits detailedEmptyFile = Some [] \<and> statementMap detailedEmptyFile = Some [] \<and>
   b_hits detailedEmptyFile = Some [] \<and> branchMap detailedEmptyFile = Some [] \<and>
   f_hits detailedEmptyFile = Some [] \<and> fnMap detailedEmptyFile = Some []"
  by code_simp

lemma summary_example:
  "lines_summary zeroSummaryFile = Some \<lparr>total = 0, covered = 0, pct = 0\<rparr> \<and>
   branches_summary zeroSummaryFile = None"
  by code_simp

theorem zero_units_percentage_witness:
  "parseLcovRecord zeroSummaryProject lcovExample = Some lcovExampleData \<and>
   branchCoverage lcovExampleData = 100 \<and> functionCoverage lcovExampleData = 100 \<and>
   statementCoverage (istanbulEntry ''src/empty.ts'' detailedEmptyFile) = 100 \<and>
   lineCoverage (istanbulEntry ''src/empty.ts'' detailedEmptyFile) = 100 \<and>
   branchCoverage (istanbulEntry ''src/empty.ts'' detailedEmptyFile) = 100 \<and>
   functionCoverage (istanbulEntry ''src/empty.ts'' detailedEmptyFile) = 100 \<and>
   lineCoverage (istanbulEntry ''src/empty.ts'' zeroSummaryFile) = 0 \<and>
   branchCoverage (istanbulEntry ''src/empty.ts'' zeroSummaryFile) = 100"
proof -
  note inst = zero_units_percentage
     [of zeroSummaryProject lcovExample lcovExample lcovExampleData zeroSummaryText
         detailedEmptyFile "''src/empty.ts''" "[]" zeroSummaryFile
         "\<lparr>total = 0, covered = 0, pct = 0\<rparr>"]
  have lcov: "branchCoverage lcovExampleData = 100 \<and> functionCoverage lcovExampleData = 100"
    using inst lcov_example_record by blast
  have detailed: "statementCoverage (istanbulEntry ''src/empty.ts'' detailedEmptyFile) = 100 \<and>
     lineCoverage (istanbulEntry ''src/empty.ts'' detailedEmptyFile) = 100 \<and>
     branchCoverage (istanbulEntry ''src/empty.ts'' detailedEmptyFile) = 100 \<and>
     functionCoverage (istanbulEntry ''src/empty.ts'' detailedEmptyFile) = 100"
    using inst detailed_example by simp
  have summary: "lineCoverage (istanbulEntry ''src/empty.ts'' zeroSummaryFile) = 0 \<and>
     branchCoverage (istanbulEntry ''src/empty.ts'' zeroSummaryFile) = 100"
    using inst summary_example by simp
  from lcov detailed summary lcov_example_record show ?thesis by blast
qed

text \<open>
  Claim C3 as stated fails for the summary shape: a report that gives a file 0 lines
  and the percentage 0 is parsed to a record with 0 lines and the line and statement
  percentages 0.
\<close>

theorem zero_units_percentage_counterexample:
  "parseIstanbulJson zeroSummaryProject zeroSummaryText
   = [\<lparr>CoverageData.filePath = ''src/empty.ts'', lineCoverage = 0, branchCoverage = 100,
       functionCoverage = 100, statementCoverage = 0, uncoveredLines = [],
       uncoveredBranches = [], uncoveredFunctions = [], totalLines = 0,
       coveredLines = 0\<rparr>]"
  by code_simp

text \<open>
  Claim C4. A text that \<open>JSON.parse\<close> rejects gives the empty list, and no error
  leaves \<open>parseIstanbulJson\<close>. But for a report whose second entry is \<open>null\<close> the
  loop ends with a TypeError after it has pushed the record of the first entry, and the
  function returns the list with that record, not the empty one.
\<close>

theorem parseIstanbulJson_null_entry_partial:
  "JSON_parse nullEntryProject truncatedText = None \<and>
   parseIstanbulJson nullEntryProject truncatedText = [] \<and>
   JSON_parse nullEntryProject nullEntryText = Some nullEntryReport \<and>
   snd (istanbulLoop nullEntryReport [])
     = Some (Error ''TypeError: Cannot read properties of null'') \<and>
   parseIstanbulJson nullEntryProject nullEntryText
   = [\<lparr>CoverageData.filePath = ''src/a.ts'', lineCoverage = 50, branchCoverage = 100,
       functionCoverage = 100, statementCoverage = 50, uncoveredLines = [],
       uncoveredBranches = [], uncoveredFunctions = [], totalLines = 10,
       coveredLines = 5\<rparr>]"
  by code_simp

end
